theory Spec2Isabelle
  imports Complex_Main "HOL-Library.AList" "HOL-Library.Multiset"
begin

section \<open>The GPU multi-pass filter engine of webgl-filter-piper\<close>

text \<open>
  A shallow embedding of \<^verbatim>\<open>lib/gpu/ReglSurface.tsx\<close> (the version that exports
  \<^verbatim>\<open>processImageWithPipeline\<close>): the shader table, the class \<^verbatim>\<open>WebGLProcessor\<close>,
  \<^verbatim>\<open>getShaderForFilter\<close> and \<^verbatim>\<open>processImageWithPipeline\<close>.

  Everything the browser and the graphics driver decide is a field of the record
  \<open>device\<close>: whether a context can be had, whether a \<^verbatim>\<open>gl.create*\<close> call yields a
  handle or \<^verbatim>\<open>null\<close>, the compile and link status of a shader text with its info log,
  the values of \<^verbatim>\<open>performance.now()\<close>, the decoding of the image source, the pixels a
  linked program writes, and the PNG encoding of the canvas. The mutable side of the
  context is the record \<open>gl_context\<close>; it keeps a ledger of every handle handed out and
  of every \<^verbatim>\<open>gl.delete*\<close> call, the texture contents, the framebuffer attachments, the
  framebuffer binding, the canvas, the list of draw calls issued, and the number of clock
  readings so far.

  A thrown \<^verbatim>\<open>Error\<close> is the left injection of a sum, carrying the message; a method
  that throws still returns the state it reached, since the context outlives the
  exception. Only the exceptions the source raises itself are modelled; each is an
  \<^verbatim>\<open>Error\<close>, so the \<^verbatim>\<open>Unknown error\<close> branch of the \<^verbatim>\<open>catch\<close> block is never
  taken. JavaScript numbers are modelled as exact numbers: \<open>int\<close> for the pixel
  dimensions and \<open>real\<close> for times and the memory figure.
\<close>

subsection \<open>Data\<close>

type_synonym pixel = "nat \<times> nat \<times> nat \<times> nat"
type_synonym image = "pixel list"

datatype resource = Tex nat | Fbo nat | Prog nat | Buf nat | Shd nat | Qry nat

datatype shader_type = VERTEX_SHADER | FRAGMENT_SHADER

text \<open>The outcome of a compile or a link: \<open>Bad log\<close> carries what
  \<^verbatim>\<open>getShaderInfoLog\<close> / \<^verbatim>\<open>getProgramInfoLog\<close> returns, which may be \<^verbatim>\<open>null\<close>.\<close>

datatype status = Good | Bad "string option"

text \<open>What a property read on the object \<^verbatim>\<open>shaders\<close> can yield: one of its own
  strings, or a member inherited from \<^verbatim>\<open>Object.prototype\<close> (named by its key).\<close>

datatype jsval = Str string | Inherited string

datatype uval = UTex nat | UVec int int | UNum real

text \<open>\<^verbatim>\<open>interface Filter\<close>; \<^verbatim>\<open>parameters\<close> is the sequence \<^verbatim>\<open>Object.entries\<close>
  enumerates. The optional \<^verbatim>\<open>paramConfig\<close> is user-interface data the engine never reads.\<close>

record Filter =
  filter_id :: string
  filter_name :: string
  filter_type :: string
  parameters :: "(string \<times> real) list"
  enabled :: bool

record ProcessingResult =
  success :: bool
  gpuTime :: real
  totalTime :: real
  memoryUsage :: real
  imageDataUrl :: "string option"
  error :: "string option"

text \<open>One \<^verbatim>\<open>gl.drawElements\<close> call with the bindings in force: the texture on unit 0,
  the shader value and the program in use, the uniforms object, the bound framebuffer
  (\<open>None\<close> is the canvas) and the viewport.\<close>

record draw =
  draw_input :: nat
  draw_shader :: jsval
  draw_program :: nat
  draw_uniforms :: "(string \<times> uval) list"
  draw_target :: "nat option"
  draw_width :: int
  draw_height :: int

record device =
  webgl_supported :: bool
  timer_ext :: bool
  now :: "nat \<Rightarrow> real"
  alloc_ok :: "resource \<Rightarrow> bool"
  fbo_complete :: "nat \<Rightarrow> bool"
  compile_status :: "shader_type \<Rightarrow> string \<Rightarrow> status"
  link_status :: "string \<Rightarrow> string \<Rightarrow> status"
  decode :: "string \<Rightarrow> image option"
  exec :: "string \<Rightarrow> (string \<times> uval) list \<Rightarrow> int \<Rightarrow> int \<Rightarrow> image \<Rightarrow> image"
  to_data_url :: "image \<Rightarrow> string"

record gl_context =
  created :: "resource list"
  deleted :: "resource list"
  fresh :: nat
  bound_fbo :: "nat option"
  tex_image :: "nat \<rightharpoonup> image"
  attached :: "nat \<rightharpoonup> nat"
  canvas :: image
  draws :: "draw list"
  clock_reads :: nat

text \<open>The object \<^verbatim>\<open>{ framebuffer, texture }\<close> that \<^verbatim>\<open>createFramebuffer\<close> returns.\<close>

record fbo =
  framebuffer :: nat
  texture :: nat

text \<open>The fields of \<^verbatim>\<open>class WebGLProcessor\<close>. \<^verbatim>\<open>programs\<close> is a \<^verbatim>\<open>Map\<close>, kept in
  insertion order as \<^verbatim>\<open>Map.forEach\<close> visits it; \<open>ext\<close> says whether the timer
  extension was found.\<close>

record WebGLProcessor =
  gl :: gl_context
  programs :: "(jsval \<times> nat) list"
  framebuffers :: "nat list"
  textures :: "nat list"
  positionBuffer :: "nat option"
  indexBuffer :: "nat option"
  ext :: bool

text \<open>The state of the \<^verbatim>\<open>forEach\<close> callback's captured variables.\<close>

record pass_state =
  currentTexture :: nat
  currentFBO :: fbo
  nextFBO :: fbo
  totalGpuTime :: real

subsection \<open>The shader table\<close>

definition basicVertexShader :: string where
  "basicVertexShader =
     ''\<newline>'' @
     ''attribute vec2 a_position;\<newline>'' @
     ''varying vec2 v_texCoord;\<newline>'' @
     ''\<newline>'' @
     ''void main() {\<newline>'' @
     ''  v_texCoord = vec2(a_position.x * 0.5 + 0.5, a_position.y * 0.5 + 0.5);\<newline>'' @
     ''  gl_Position = vec4(a_position, 0, 1);\<newline>'' @
     ''}\<newline>''"

definition shaders_passthrough :: string where
  "shaders_passthrough =
     ''\<newline>'' @
     ''    precision mediump float;\<newline>'' @
     ''    uniform sampler2D u_image;\<newline>'' @
     ''    varying vec2 v_texCoord;\<newline>'' @
     ''    void main() {\<newline>'' @
     ''      gl_FragColor = texture2D(u_image, v_texCoord);\<newline>'' @
     ''    }\<newline>'' @
     ''  ''"

definition shaders_debug :: string where
  "shaders_debug =
     ''\<newline>'' @
     ''    precision mediump float;\<newline>'' @
     ''    uniform sampler2D u_image;\<newline>'' @
     ''    varying vec2 v_texCoord;\<newline>'' @
     ''    void main() {\<newline>'' @
     ''      vec3 color = texture2D(u_image, v_texCoord).rgb;\<newline>'' @
     ''      color.r = min(color.r + 0.5, 1.0);\<newline>'' @
     ''      gl_FragColor = vec4(color, 1.0);\<newline>'' @
     ''    }\<newline>'' @
     ''  ''"

definition shaders_brightness :: string where
  "shaders_brightness =
     ''\<newline>'' @
     ''    precision mediump float;\<newline>'' @
     ''    uniform sampler2D u_image;\<newline>'' @
     ''    uniform float u_value;\<newline>'' @
     ''    varying vec2 v_texCoord;\<newline>'' @
     ''    void main() {\<newline>'' @
     ''      vec3 color = texture2D(u_image, v_texCoord).rgb;\<newline>'' @
     ''      color += u_value * 0.01;\<newline>'' @
     ''      gl_FragColor = vec4(clamp(color, 0.0, 1.0), 1.0);\<newline>'' @
     ''    }\<newline>'' @
     ''  ''"

definition shaders_contrast :: string where
  "shaders_contrast =
     ''\<newline>'' @
     ''    precision mediump float;\<newline>'' @
     ''    uniform sampler2D u_image;\<newline>'' @
     ''    uniform float u_value;\<newline>'' @
     ''    varying vec2 v_texCoord;\<newline>'' @
     ''    void main() {\<newline>'' @
     ''      vec3 color = texture2D(u_image, v_texCoord).rgb;\<newline>'' @
     ''      color = (color - 0.5) * u_value + 0.5;\<newline>'' @
     ''      gl_FragColor = vec4(clamp(color, 0.0, 1.0), 1.0);\<newline>'' @
     ''    }\<newline>'' @
     ''  ''"

definition shaders_saturation :: string where
  "shaders_saturation =
     ''\<newline>'' @
     ''    precision mediump float;\<newline>'' @
     ''    uniform sampler2D u_image;\<newline>'' @
     ''    uniform float u_value;\<newline>'' @
     ''    varying vec2 v_texCoord;\<newline>'' @
     ''    void main() {\<newline>'' @
     ''      vec3 color = texture2D(u_image, v_texCoord).rgb;\<newline>'' @
     ''      float gray = dot(color, vec3(0.299, 0.587, 0.114));\<newline>'' @
     ''      vec3 saturated = mix(vec3(gray), color, u_value);\<newline>'' @
     ''      gl_FragColor = vec4(clamp(saturated, 0.0, 1.0), 1.0);\<newline>'' @
     ''    }\<newline>'' @
     ''  ''"

definition shaders_blur :: string where
  "shaders_blur =
     ''\<newline>'' @
     ''    precision mediump float;\<newline>'' @
     ''    uniform sampler2D u_image;\<newline>'' @
     ''    uniform float u_radius;\<newline>'' @
     ''    uniform vec2 u_resolution;\<newline>'' @
     ''    varying vec2 v_texCoord;\<newline>'' @
     ''    void main() {\<newline>'' @
     ''      vec2 texelSize = 1.0 / u_resolution;\<newline>'' @
     ''      vec3 color = vec3(0.0);\<newline>'' @
     ''      float totalWeight = 0.0;\<newline>'' @
     ''      for (int x = -2; x <= 2; x++) {\<newline>'' @
     ''        for (int y = -2; y <= 2; y++) {\<newline>'' @
     ''          vec2 offset = vec2(float(x), float(y)) * texelSize * u_radius;\<newline>'' @
     ''          color += texture2D(u_image, v_texCoord + offset).rgb;\<newline>'' @
     ''          totalWeight += 1.0;\<newline>'' @
     ''        }\<newline>'' @
     ''      }\<newline>'' @
     ''      gl_FragColor = vec4(color / totalWeight, 1.0);\<newline>'' @
     ''    }\<newline>'' @
     ''  ''"

definition shaders_sharpen :: string where
  "shaders_sharpen =
     ''\<newline>'' @
     ''    precision mediump float;\<newline>'' @
     ''    uniform sampler2D u_image;\<newline>'' @
     ''    uniform float u_strength;\<newline>'' @
     ''    uniform vec2 u_resolution;\<newline>'' @
     ''    varying vec2 v_texCoord;\<newline>'' @
     ''    void main() {\<newline>'' @
     ''      vec2 texelSize = 1.0 / u_resolution;\<newline>'' @
     ''      vec3 center = texture2D(u_image, v_texCoord).rgb;\<newline>'' @
     ''      vec3 blur = (\<newline>'' @
     ''        texture2D(u_image, v_texCoord + vec2(-texelSize.x, 0.0)).rgb +\<newline>'' @
     ''        texture2D(u_image, v_texCoord + vec2(texelSize.x, 0.0)).rgb +\<newline>'' @
     ''        texture2D(u_image, v_texCoord + vec2(0.0, -texelSize.y)).rgb +\<newline>'' @
     ''        texture2D(u_image, v_texCoord + vec2(0.0, texelSize.y)).rgb\<newline>'' @
     ''      ) * 0.25;\<newline>'' @
     ''      vec3 sharpened = center + (center - blur) * u_strength;\<newline>'' @
     ''      gl_FragColor = vec4(clamp(sharpened, 0.0, 1.0), 1.0);\<newline>'' @
     ''    }\<newline>'' @
     ''  ''"

definition shaders_edge :: string where
  "shaders_edge =
     ''\<newline>'' @
     ''    precision mediump float;\<newline>'' @
     ''    uniform sampler2D u_image;\<newline>'' @
     ''    uniform float u_threshold;\<newline>'' @
     ''    uniform vec2 u_resolution;\<newline>'' @
     ''    varying vec2 v_texCoord;\<newline>'' @
     ''    void main() {\<newline>'' @
     ''      vec2 texelSize = 1.0 / u_resolution;\<newline>'' @
     ''      vec3 tl = texture2D(u_image, v_texCoord + vec2(-texelSize.x, -texelSize.y)).rgb;\<newline>'' @
     ''      vec3 tm = texture2D(u_image, v_texCoord + vec2(0.0, -texelSize.y)).rgb;\<newline>'' @
     ''      vec3 tr = texture2D(u_image, v_texCoord + vec2(texelSize.x, -texelSize.y)).rgb;\<newline>'' @
     ''      vec3 ml = texture2D(u_image, v_texCoord + vec2(-texelSize.x, 0.0)).rgb;\<newline>'' @
     ''      vec3 mr = texture2D(u_image, v_texCoord + vec2(texelSize.x, 0.0)).rgb;\<newline>'' @
     ''      vec3 bl = texture2D(u_image, v_texCoord + vec2(-texelSize.x, texelSize.y)).rgb;\<newline>'' @
     ''      vec3 bm = texture2D(u_image, v_texCoord + vec2(0.0, texelSize.y)).rgb;\<newline>'' @
     ''      vec3 br = texture2D(u_image, v_texCoord + vec2(texelSize.x, texelSize.y)).rgb;\<newline>'' @
     ''      vec3 gx = -tl + tr - 2.0*ml + 2.0*mr - bl + br;\<newline>'' @
     ''      vec3 gy = -tl - 2.0*tm - tr + bl + 2.0*bm + br;\<newline>'' @
     ''      float magnitude = length(gx) + length(gy);\<newline>'' @
     ''      float edge = step(u_threshold, magnitude);\<newline>'' @
     ''      gl_FragColor = vec4(vec3(edge), 1.0);\<newline>'' @
     ''    }\<newline>'' @
     ''  ''"

definition shaders_noise :: string where
  "shaders_noise =
     ''\<newline>'' @
     ''    precision mediump float;\<newline>'' @
     ''    uniform sampler2D u_image;\<newline>'' @
     ''    uniform float u_strength;\<newline>'' @
     ''    uniform vec2 u_resolution;\<newline>'' @
     ''    varying vec2 v_texCoord;\<newline>'' @
     ''    void main() {\<newline>'' @
     ''      vec2 texelSize = 1.0 / u_resolution;\<newline>'' @
     ''      vec3 center = texture2D(u_image, v_texCoord).rgb;\<newline>'' @
     ''      vec3 sum = vec3(0.0);\<newline>'' @
     ''      sum += texture2D(u_image, v_texCoord + vec2(-texelSize.x, -texelSize.y)).rgb;\<newline>'' @
     ''      sum += texture2D(u_image, v_texCoord + vec2(0.0, -texelSize.y)).rgb;\<newline>'' @
     ''      sum += texture2D(u_image, v_texCoord + vec2(texelSize.x, -texelSize.y)).rgb;\<newline>'' @
     ''      sum += texture2D(u_image, v_texCoord + vec2(-texelSize.x, 0.0)).rgb;\<newline>'' @
     ''      sum += texture2D(u_image, v_texCoord).rgb;\<newline>'' @
     ''      sum += texture2D(u_image, v_texCoord + vec2(texelSize.x, 0.0)).rgb;\<newline>'' @
     ''      sum += texture2D(u_image, v_texCoord + vec2(-texelSize.x, texelSize.y)).rgb;\<newline>'' @
     ''      sum += texture2D(u_image, v_texCoord + vec2(0.0, texelSize.y)).rgb;\<newline>'' @
     ''      sum += texture2D(u_image, v_texCoord + vec2(texelSize.x, texelSize.y)).rgb;\<newline>'' @
     ''      vec3 filtered = sum / 9.0;\<newline>'' @
     ''      vec3 result = mix(center, filtered, u_strength);\<newline>'' @
     ''      gl_FragColor = vec4(result, 1.0);\<newline>'' @
     ''    }\<newline>'' @
     ''  ''"

definition shaders_bilateral :: string where
  "shaders_bilateral =
     ''\<newline>'' @
     ''    precision mediump float;\<newline>'' @
     ''    uniform sampler2D u_image;\<newline>'' @
     ''    uniform float u_spatial;\<newline>'' @
     ''    uniform float u_color;\<newline>'' @
     ''    uniform vec2 u_resolution;\<newline>'' @
     ''    varying vec2 v_texCoord;\<newline>'' @
     ''    void main() {\<newline>'' @
     ''      vec2 texelSize = 1.0 / u_resolution;\<newline>'' @
     ''      vec3 centerColor = texture2D(u_image, v_texCoord).rgb;\<newline>'' @
     ''      vec3 sum = vec3(0.0);\<newline>'' @
     ''      float totalWeight = 0.0;\<newline>'' @
     ''      for (int x = -2; x <= 2; x++) {\<newline>'' @
     ''        for (int y = -2; y <= 2; y++) {\<newline>'' @
     ''          vec2 offset = vec2(float(x), float(y)) * texelSize;\<newline>'' @
     ''          vec3 sampleColor = texture2D(u_image, v_texCoord + offset).rgb;\<newline>'' @
     ''          float spatialDist = length(vec2(float(x), float(y)));\<newline>'' @
     ''          float colorDist = length(sampleColor - centerColor);\<newline>'' @
     ''          float spatialWeight = exp(-spatialDist * spatialDist / (2.0 * u_spatial * u_spatial));\<newline>'' @
     ''          float colorWeight = exp(-colorDist * colorDist / (2.0 * u_color * u_color));\<newline>'' @
     ''          float weight = spatialWeight * colorWeight;\<newline>'' @
     ''          sum += sampleColor * weight;\<newline>'' @
     ''          totalWeight += weight;\<newline>'' @
     ''        }\<newline>'' @
     ''      }\<newline>'' @
     ''      if (totalWeight > 0.0) {\<newline>'' @
     ''        gl_FragColor = vec4(sum / totalWeight, 1.0);\<newline>'' @
     ''      } else {\<newline>'' @
     ''        gl_FragColor = vec4(centerColor, 1.0);\<newline>'' @
     ''      }\<newline>'' @
     ''    }\<newline>'' @
     ''  ''"

text \<open>The own properties of the object literal \<^verbatim>\<open>shaders\<close>, in source order.\<close>

definition shaders :: "(string \<times> string) list" where
  "shaders =
     [(''passthrough'', shaders_passthrough), (''debug'', shaders_debug),
      (''brightness'', shaders_brightness), (''contrast'', shaders_contrast),
      (''saturation'', shaders_saturation), (''blur'', shaders_blur),
      (''sharpen'', shaders_sharpen), (''edge'', shaders_edge),
      (''noise'', shaders_noise), (''bilateral'', shaders_bilateral)]"

text \<open>\<^verbatim>\<open>shaders\<close> is an object literal, so its prototype is \<^verbatim>\<open>Object.prototype\<close> and
  a bracket read finds these inherited members as well.\<close>

definition object_prototype_keys :: "string list" where
  "object_prototype_keys =
     [''constructor'', ''__defineGetter__'', ''__defineSetter__'', ''hasOwnProperty'',
      ''__lookupGetter__'', ''__lookupSetter__'', ''isPrototypeOf'',
      ''propertyIsEnumerable'', ''toString'', ''valueOf'', ''__proto__'',
      ''toLocaleString'']"

text \<open>The read \<^verbatim>\<open>obj[key]\<close>; \<open>None\<close> is \<^verbatim>\<open>undefined\<close>.\<close>

definition js_get :: "(string \<times> string) list \<Rightarrow> string \<Rightarrow> jsval option" where
  "js_get obj key =
     (case map_of obj key of
        Some s \<Rightarrow> Some (Str s)
      | None \<Rightarrow> if key \<in> set object_prototype_keys then Some (Inherited key) else None)"

fun truthy :: "jsval \<Rightarrow> bool" where
  "truthy (Str s) = (s \<noteq> [])"
| "truthy (Inherited k) = True"

text \<open>\<^verbatim>\<open>ToString\<close>, as \<^verbatim>\<open>gl.shaderSource\<close> applies it to its argument: a built-in
  function prints in the native-function form, \<^verbatim>\<open>Object.prototype\<close> itself as an object.\<close>

fun js_to_string :: "jsval \<Rightarrow> string" where
  "js_to_string (Str s) = s"
| "js_to_string (Inherited k) =
     (if k = ''__proto__'' then ''[object Object]''
      else ''function '' @ (if k = ''constructor'' then ''Object'' else k) @ ''() { [native code] }'')"

text \<open>The interpolation \<^verbatim>\<open>${error}\<close> of an info log.\<close>

definition template_text :: "string option \<Rightarrow> string" where
  "template_text info = (case info of None \<Rightarrow> ''null'' | Some s \<Rightarrow> s)"

subsection \<open>getShaderForFilter\<close>

definition getShaderForFilter :: "string \<Rightarrow> jsval" where
  "getShaderForFilter filterId =
     (let baseId = takeWhile (\<lambda>c. c \<noteq> CHR ''-'') filterId
      in case js_get shaders baseId of
           Some v \<Rightarrow> if truthy v then v else Str shaders_passthrough
         | None \<Rightarrow> Str shaders_passthrough)"

subsection \<open>The context's primitives\<close>

definition new_context :: "int \<Rightarrow> int \<Rightarrow> gl_context" where
  "new_context width height =
     \<lparr>created = [], deleted = [], fresh = 0, bound_fbo = None, tex_image = Map.empty,
      attached = Map.empty, canvas = replicate (nat width * nat height) (0, 0, 0, 0),
      draws = [], clock_reads = 0\<rparr>"

definition performance_now :: "device \<Rightarrow> gl_context \<Rightarrow> real \<times> gl_context" where
  "performance_now dev g = (now dev (clock_reads g), g\<lparr>clock_reads := Suc (clock_reads g)\<rparr>)"

text \<open>\<^verbatim>\<open>gl.createTexture\<close>, \<^verbatim>\<open>gl.createShader\<close> and the like: a new handle, entered in
  the ledger, or \<^verbatim>\<open>null\<close>.\<close>

definition gl_create :: "device \<Rightarrow> (nat \<Rightarrow> resource) \<Rightarrow> gl_context \<Rightarrow> nat option \<times> gl_context" where
  "gl_create dev kind g =
     (if alloc_ok dev (kind (fresh g))
      then (Some (fresh g), g\<lparr>created := created g @ [kind (fresh g)], fresh := Suc (fresh g)\<rparr>)
      else (None, g))"

definition gl_delete :: "resource \<Rightarrow> gl_context \<Rightarrow> gl_context" where
  "gl_delete r g = g\<lparr>deleted := deleted g @ [r]\<rparr>"

text \<open>What a draw or a clear writes goes to the bound framebuffer's attachment, or to
  the canvas when none is bound.\<close>

definition write_target :: "nat option \<Rightarrow> (image \<Rightarrow> image) \<Rightarrow> gl_context \<Rightarrow> gl_context" where
  "write_target target f g =
     (case target of
        None \<Rightarrow> g\<lparr>canvas := f (canvas g)\<rparr>
      | Some fb \<Rightarrow>
          (case attached g fb of
             None \<Rightarrow> g
           | Some t \<Rightarrow>
               (case tex_image g t of
                  None \<Rightarrow> g
                | Some old \<Rightarrow> g\<lparr>tex_image := (tex_image g)(t \<mapsto> f old)\<rparr>)))"

definition texel_data :: "gl_context \<Rightarrow> nat \<Rightarrow> image" where
  "texel_data g t = (case tex_image g t of None \<Rightarrow> [] | Some im \<Rightarrow> im)"

subsection \<open>class WebGLProcessor\<close>

definition setupGeometry :: "device \<Rightarrow> WebGLProcessor \<Rightarrow> WebGLProcessor" where
  "setupGeometry dev P =
     (case gl_create dev Buf (gl P) of
        (pb, g1) \<Rightarrow>
          (case gl_create dev Buf g1 of
             (ib, g2) \<Rightarrow> P\<lparr>gl := g2, positionBuffer := pb, indexBuffer := ib\<rparr>))"

definition new_WebGLProcessor :: "device \<Rightarrow> gl_context \<Rightarrow> string + WebGLProcessor" where
  "new_WebGLProcessor dev g =
     (if \<not> webgl_supported dev then Inl ''WebGL not supported''
      else Inr (setupGeometry dev
             \<lparr>gl = g, programs = [], framebuffers = [], textures = [],
              positionBuffer = None, indexBuffer = None, ext = timer_ext dev\<rparr>))"

definition compileShader :: "device \<Rightarrow> string \<Rightarrow> shader_type \<Rightarrow> gl_context \<Rightarrow> (string + nat) \<times> gl_context" where
  "compileShader dev source ty g =
     (case gl_create dev Shd g of
        (None, g1) \<Rightarrow> (Inl ''Failed to create shader'', g1)
      | (Some shader, g1) \<Rightarrow>
          (case compile_status dev ty source of
             Bad info \<Rightarrow>
               (Inl (''Shader compilation error: '' @ template_text info), gl_delete (Shd shader) g1)
           | Good \<Rightarrow> (Inr shader, g1)))"

definition createProgram :: "device \<Rightarrow> string \<Rightarrow> string \<Rightarrow> gl_context \<Rightarrow> (string + nat) \<times> gl_context" where
  "createProgram dev vertexSource fragmentSource g =
     (case compileShader dev vertexSource VERTEX_SHADER g of
        (Inl e, g1) \<Rightarrow> (Inl e, g1)
      | (Inr vertexShader, g1) \<Rightarrow>
          (case compileShader dev fragmentSource FRAGMENT_SHADER g1 of
             (Inl e, g2) \<Rightarrow> (Inl e, g2)
           | (Inr fragmentShader, g2) \<Rightarrow>
               (case gl_create dev Prog g2 of
                  (None, g3) \<Rightarrow> (Inl ''Failed to create program'', g3)
                | (Some program, g3) \<Rightarrow>
                    (case link_status dev vertexSource fragmentSource of
                       Bad info \<Rightarrow>
                         (Inl (''Program linking error: '' @ template_text info),
                          gl_delete (Prog program) g3)
                     | Good \<Rightarrow>
                         (Inr program,
                          gl_delete (Shd fragmentShader) (gl_delete (Shd vertexShader) g3))))))"

text \<open>The cache is keyed by the value passed as \<^verbatim>\<open>fragmentShader\<close>; the text that
  reaches the compiler is that value's string form.\<close>

definition getProgram :: "device \<Rightarrow> jsval \<Rightarrow> WebGLProcessor \<Rightarrow> (string + nat) \<times> WebGLProcessor" where
  "getProgram dev fragmentShader P =
     (case map_of (programs P) fragmentShader of
        None \<Rightarrow>
          (case createProgram dev basicVertexShader (js_to_string fragmentShader) (gl P) of
             (Inl e, g1) \<Rightarrow> (Inl e, P\<lparr>gl := g1\<rparr>)
           | (Inr program, g1) \<Rightarrow>
               (Inr program,
                P\<lparr>gl := g1, programs := AList.update fragmentShader program (programs P)\<rparr>))
      | Some program \<Rightarrow> (Inr program, P))"

definition createTexture :: "device \<Rightarrow> image \<Rightarrow> WebGLProcessor \<Rightarrow> (string + nat) \<times> WebGLProcessor" where
  "createTexture dev img P =
     (case gl_create dev Tex (gl P) of
        (None, g1) \<Rightarrow> (Inl ''Failed to create texture'', P\<lparr>gl := g1\<rparr>)
      | (Some t, g1) \<Rightarrow>
          (Inr t, P\<lparr>gl := g1\<lparr>tex_image := (tex_image g1)(t \<mapsto> img)\<rparr>,
                    textures := textures P @ [t]\<rparr>))"

definition createFramebuffer :: "device \<Rightarrow> int \<Rightarrow> int \<Rightarrow> WebGLProcessor \<Rightarrow> (string + fbo) \<times> WebGLProcessor" where
  "createFramebuffer dev width height P =
     (case gl_create dev Tex (gl P) of
        (None, g1) \<Rightarrow> (Inl ''Failed to create framebuffer texture'', P\<lparr>gl := g1\<rparr>)
      | (Some t, g1) \<Rightarrow>
          (let g2 = g1\<lparr>tex_image :=
                       (tex_image g1)(t \<mapsto> replicate (nat width * nat height) (0, 0, 0, 0))\<rparr>
           in case gl_create dev Fbo g2 of
                (None, g3) \<Rightarrow> (Inl ''Failed to create framebuffer'', P\<lparr>gl := g3\<rparr>)
              | (Some fb, g3) \<Rightarrow>
                  (let g4 = g3\<lparr>bound_fbo := Some fb, attached := (attached g3)(fb \<mapsto> t)\<rparr>
                   in if \<not> fbo_complete dev fb
                      then (Inl ''Framebuffer not complete'', P\<lparr>gl := g4\<rparr>)
                      else (Inr \<lparr>framebuffer = fb, texture = t\<rparr>,
                            P\<lparr>gl := g4, framebuffers := framebuffers P @ [fb],
                              textures := textures P @ [t]\<rparr>))))"

text \<open>\<^verbatim>\<open>renderFilter\<close>. The loop that uploads the uniforms is part of what the device
  does with the uniforms object, so the object is handed to \<open>exec\<close> whole. The timer
  query, when the extension is there, is created and never deleted.\<close>

definition renderFilter :: "device \<Rightarrow> nat \<Rightarrow> jsval \<Rightarrow> (string \<times> uval) list \<Rightarrow> nat option \<Rightarrow> int \<Rightarrow> int \<Rightarrow> WebGLProcessor \<Rightarrow> (string + real) \<times> WebGLProcessor" where
  "renderFilter dev inputTexture fragmentShader uniforms target width height P =
     (case getProgram dev fragmentShader P of
        (Inl e, P1) \<Rightarrow> (Inl e, P1)
      | (Inr program, P1) \<Rightarrow>
          (case performance_now dev (gl P1) of
             (startTime, g1) \<Rightarrow>
               (let g2 = (if ext P1 then snd (gl_create dev Qry g1) else g1);
                    g3 = g2\<lparr>bound_fbo := target\<rparr>;
                    g4 = write_target target
                           (\<lambda>old. exec dev (js_to_string fragmentShader) uniforms width height
                                    (texel_data g3 inputTexture)) g3;
                    g5 = g4\<lparr>draws := draws g4 @
                              [\<lparr>draw_input = inputTexture, draw_shader = fragmentShader,
                                draw_program = program, draw_uniforms = uniforms,
                                draw_target = target, draw_width = width,
                                draw_height = height\<rparr>]\<rparr>
                in case performance_now dev g5 of
                     (endTime, g6) \<Rightarrow> (Inr (endTime - startTime), P1\<lparr>gl := g6\<rparr>))))"

definition clear :: "WebGLProcessor \<Rightarrow> WebGLProcessor" where
  "clear P = P\<lparr>gl := write_target (bound_fbo (gl P)) (map (\<lambda>p. (0, 0, 0, 255))) (gl P)\<rparr>"

definition getCanvasDataURL :: "device \<Rightarrow> WebGLProcessor \<Rightarrow> string" where
  "getCanvasDataURL dev P = to_data_url dev (canvas (gl P))"

definition getMemoryUsage :: "int \<Rightarrow> int \<Rightarrow> int \<Rightarrow> real" where
  "getMemoryUsage width height numTextures =
     real_of_int (width * height * 4 * numTextures) / (1024 * 1024)"

definition destroy :: "WebGLProcessor \<Rightarrow> WebGLProcessor" where
  "destroy P =
     (let g1 = fold (\<lambda>(key, program). gl_delete (Prog program)) (programs P) (gl P);
          g2 = fold (\<lambda>fb. gl_delete (Fbo fb)) (framebuffers P) g1;
          g3 = fold (\<lambda>t. gl_delete (Tex t)) (textures P) g2;
          g4 = (case positionBuffer P of None \<Rightarrow> g3 | Some b \<Rightarrow> gl_delete (Buf b) g3);
          g5 = (case indexBuffer P of None \<Rightarrow> g4 | Some b \<Rightarrow> gl_delete (Buf b) g4)
      in P\<lparr>gl := g5, programs := [], framebuffers := [], textures := []\<rparr>)"

subsection \<open>processImageWithPipeline\<close>

text \<open>The uniforms object of one pass: the two fixed entries, then one assignment
  \<^verbatim>\<open>uniforms[`u_${key}`] = value\<close> per parameter.\<close>

definition pass_uniforms :: "nat \<Rightarrow> int \<Rightarrow> int \<Rightarrow> Filter \<Rightarrow> (string \<times> uval) list" where
  "pass_uniforms cur width height f =
     fold (\<lambda>(key, value). AList.update (''u_'' @ key) (UNum value)) (parameters f)
       [(''u_image'', UTex cur), (''u_resolution'', UVec width height)]"

text \<open>\<^verbatim>\<open>enabledFilters.forEach((filter, index) => ...)\<close>, with \<open>n\<close> the length of
  \<^verbatim>\<open>enabledFilters\<close>; an exception in the callback ends the iteration.\<close>

fun forEach_filter :: "device \<Rightarrow> int \<Rightarrow> int \<Rightarrow> nat \<Rightarrow> nat \<Rightarrow> Filter list \<Rightarrow> pass_state \<Rightarrow> WebGLProcessor \<Rightarrow> (string + pass_state) \<times> WebGLProcessor" where
  "forEach_filter dev width height n index [] s P = (Inr s, P)"
| "forEach_filter dev width height n index (f # rest) s P =
     (let fragmentShader = getShaderForFilter (filter_id f);
          isLastFilter = (int index = int n - 1);
          uniforms = pass_uniforms (currentTexture s) width height f
      in case renderFilter dev (currentTexture s) fragmentShader uniforms
                (if isLastFilter then None else Some (framebuffer (currentFBO s)))
                width height P of
           (Inl e, P1) \<Rightarrow> (Inl e, P1)
         | (Inr gpu, P1) \<Rightarrow>
             forEach_filter dev width height n (Suc index) rest
               (if \<not> isLastFilter
                then s\<lparr>currentTexture := texture (currentFBO s), currentFBO := nextFBO s,
                       nextFBO := currentFBO s, totalGpuTime := totalGpuTime s + gpu\<rparr>
                else s\<lparr>totalGpuTime := totalGpuTime s + gpu\<rparr>)
               P1)"

text \<open>The branch on \<^verbatim>\<open>enabledFilters.length === 0\<close>; the value is \<^verbatim>\<open>totalGpuTime\<close>.\<close>

definition render_passes :: "device \<Rightarrow> Filter list \<Rightarrow> nat \<Rightarrow> fbo \<Rightarrow> fbo \<Rightarrow> int \<Rightarrow> int \<Rightarrow> WebGLProcessor \<Rightarrow> (string + real) \<times> WebGLProcessor" where
  "render_passes dev enabledFilters inputTexture fbo1 fbo2 width height P =
     (if length enabledFilters = 0
      then (case renderFilter dev inputTexture (Str shaders_passthrough)
                   [(''u_image'', UTex inputTexture)] None width height (clear P) of
              (Inl e, P1) \<Rightarrow> (Inl e, P1)
            | (Inr gpu, P1) \<Rightarrow> (Inr (0 + gpu), P1))
      else (case forEach_filter dev width height (length enabledFilters) 0 enabledFilters
                   \<lparr>currentTexture = inputTexture, currentFBO = fbo1, nextFBO = fbo2,
                    totalGpuTime = 0\<rparr> (clear P) of
              (Inl e, P1) \<Rightarrow> (Inl e, P1)
            | (Inr s, P1) \<Rightarrow> (Inr (totalGpuTime s), P1)))"

text \<open>The body of the \<^verbatim>\<open>try\<close> block of \<^verbatim>\<open>img.onload\<close>: the value resolved on the
  normal path, or the message of the exception, and the context as it stands.\<close>

definition try_block :: "device \<Rightarrow> image \<Rightarrow> Filter list \<Rightarrow> int \<Rightarrow> int \<Rightarrow> real \<Rightarrow> gl_context \<Rightarrow> (string + ProcessingResult) \<times> gl_context" where
  "try_block dev img pipeline width height totalStartTime g =
     (case new_WebGLProcessor dev g of
        Inl e \<Rightarrow> (Inl e, g)
      | Inr P0 \<Rightarrow>
          (case createTexture dev img P0 of
             (Inl e, P1) \<Rightarrow> (Inl e, gl P1)
           | (Inr inputTexture, P1) \<Rightarrow>
               (case createFramebuffer dev width height P1 of
                  (Inl e, P2) \<Rightarrow> (Inl e, gl P2)
                | (Inr fbo1, P2) \<Rightarrow>
                    (case createFramebuffer dev width height P2 of
                       (Inl e, P3) \<Rightarrow> (Inl e, gl P3)
                     | (Inr fbo2, P3) \<Rightarrow>
                         (let enabledFilters = filter enabled pipeline
                          in case render_passes dev enabledFilters inputTexture fbo1 fbo2
                                    width height P3 of
                               (Inl e, P4) \<Rightarrow> (Inl e, gl P4)
                             | (Inr gpu, P4) \<Rightarrow>
                                 (case performance_now dev (gl P4) of
                                    (t, g5) \<Rightarrow>
                                      (let P5 = P4\<lparr>gl := g5\<rparr>;
                                           total = t - totalStartTime;
                                           mem = getMemoryUsage width height
                                                   (int (length enabledFilters) + 2);
                                           url = getCanvasDataURL dev P5;
                                           P6 = destroy P5
                                       in (Inr \<lparr>success = True, gpuTime = gpu,
                                                totalTime = total, memoryUsage = mem,
                                                imageDataUrl = Some url, error = None\<rparr>,
                                           gl P6))))))))"

text \<open>The promise's value, with the context the run leaves behind. \<open>decode\<close> decides
  between \<^verbatim>\<open>img.onload\<close> and \<^verbatim>\<open>img.onerror\<close>.\<close>

definition processImageWithPipeline :: "device \<Rightarrow> string \<Rightarrow> Filter list \<Rightarrow> int \<Rightarrow> int \<Rightarrow> ProcessingResult \<times> gl_context" where
  "processImageWithPipeline dev imageSrc pipeline width height =
     (case decode dev imageSrc of
        None \<Rightarrow>
          (\<lparr>success = False, gpuTime = 0, totalTime = 0, memoryUsage = 0,
            imageDataUrl = None, error = Some ''Failed to load image''\<rparr>,
           new_context width height)
      | Some img \<Rightarrow>
          (case performance_now dev (new_context width height) of
             (totalStartTime, g1) \<Rightarrow>
               (case try_block dev img pipeline width height totalStartTime g1 of
                  (Inl message, g) \<Rightarrow>
                    (\<lparr>success = False, gpuTime = 0, totalTime = 0, memoryUsage = 0,
                      imageDataUrl = None, error = Some message\<rparr>, g)
                | (Inr r, g) \<Rightarrow> (r, g))))"

subsection \<open>Reading the ledger\<close>

fun fbo_handles :: "resource list \<Rightarrow> nat list" where
  "fbo_handles [] = []"
| "fbo_handles (Fbo n # rs) = n # fbo_handles rs"
| "fbo_handles (r # rs) = fbo_handles rs"

fun tex_handles :: "resource list \<Rightarrow> nat list" where
  "tex_handles [] = []"
| "tex_handles (Tex n # rs) = n # tex_handles rs"
| "tex_handles (r # rs) = tex_handles rs"

text \<open>The off-screen render targets a context has handed out: each framebuffer with
  the texture attached to it.\<close>

definition render_targets :: "gl_context \<Rightarrow> (nat \<times> nat option) list" where
  "render_targets g = map (\<lambda>fb. (fb, attached g fb)) (fbo_handles (created g))"

text \<open>What one recorded draw call computes from the image on texture unit 0.\<close>

definition replay :: "device \<Rightarrow> draw \<Rightarrow> image \<Rightarrow> image" where
  "replay dev d im =
     exec dev (js_to_string (draw_shader d)) (draw_uniforms d) (draw_width d) (draw_height d) im"

subsection \<open>What a processor holds\<close>

text \<open>What a processor still holds, as the ledger names it: the cached programs, the
  tracked framebuffers and textures, and the two geometry buffers.\<close>

fun is_query :: "resource \<Rightarrow> bool" where
  "is_query (Qry n) = True"
| "is_query r = False"

definition buffer_list :: "nat option \<Rightarrow> resource list" where
  "buffer_list b = (case b of None \<Rightarrow> [] | Some n \<Rightarrow> [Buf n])"

definition held :: "WebGLProcessor \<Rightarrow> resource multiset" where
  "held P =
     mset (map (\<lambda>kp. Prog (snd kp)) (programs P)) + mset (map Fbo (framebuffers P)) +
     mset (map Tex (textures P)) + mset (buffer_list (positionBuffer P)) +
     mset (buffer_list (indexBuffer P))"

text \<open>Every handle created, timer queries apart, has been deleted or is still held.\<close>

definition tracked :: "WebGLProcessor \<Rightarrow> bool" where
  "tracked P \<longleftrightarrow>
     mset (filter (\<lambda>r. \<not> is_query r) (created (gl P))) = mset (deleted (gl P)) + held P"

subsection \<open>Concrete devices and pipelines\<close>

text \<open>A device on which nothing fails: every handle is granted, every shader compiles
  and links, the clock advances by one millisecond per reading, the image source decodes
  to a single red pixel, and a program writes its input unchanged.\<close>

definition demo_device :: device where
  "demo_device =
     \<lparr>webgl_supported = True, timer_ext = False, now = (\<lambda>k. real k),
      alloc_ok = (\<lambda>r. True), fbo_complete = (\<lambda>fb. True),
      compile_status = (\<lambda>ty src. Good), link_status = (\<lambda>vs fs. Good),
      decode = (\<lambda>src. Some [(255, 0, 0, 255)]),
      exec = (\<lambda>src us w h im. im),
      to_data_url = (\<lambda>im. ''data:image/png;base64,'')\<rparr>"

text \<open>The same device with a driver that rejects every fragment shader.\<close>

definition broken_compiler :: device where
  "broken_compiler =
     demo_device\<lparr>compile_status :=
       (\<lambda>ty src. if ty = FRAGMENT_SHADER then Bad (Some ''ERROR: 0:1: syntax error'')
                  else Good)\<rparr>"


text \<open>The same device with an image source that does not load.\<close>

definition no_image :: device where
  "no_image = demo_device\<lparr>decode := (\<lambda>src. None)\<rparr>"

definition demo_filter :: "string \<Rightarrow> bool \<Rightarrow> Filter" where
  "demo_filter i e =
     \<lparr>filter_id = i, filter_name = i, filter_type = i, parameters = [(''value'', 10)],
      enabled = e\<rparr>"

definition demo_pipeline :: "Filter list" where
  "demo_pipeline =
     [demo_filter ''brightness-1'' True, demo_filter ''blur-2'' False,
      demo_filter ''contrast-3'' True]"

text \<open>A processor that has compiled nothing yet.\<close>

definition idle_processor :: WebGLProcessor where
  "idle_processor =
     \<lparr>gl = new_context 4 4, programs = [], framebuffers = [], textures = [],
      positionBuffer = None, indexBuffer = None, ext = False\<rparr>"

text \<open>The demo device with a compiler that accepts the vertex shader and the ten
  fragment sources of the table, and nothing else.\<close>

definition strict_compiler :: device where
  "strict_compiler =
     demo_device\<lparr>compile_status :=
       (\<lambda>ty src. if src \<in> set (basicVertexShader # map snd shaders) then Good
                  else Bad (Some ''ERROR: 0:1: syntax error''))\<rparr>"

section \<open>Lemmas\<close>

subsection \<open>What each operation leaves as it was\<close>

lemma fbo_handles_append: "fbo_handles (xs @ ys) = fbo_handles xs @ fbo_handles ys"
  by (induction xs rule: fbo_handles.induct) simp_all

lemma tex_handles_append: "tex_handles (xs @ ys) = tex_handles xs @ tex_handles ys"
  by (induction xs rule: tex_handles.induct) simp_all

lemma compileShader_frame:
  "draws (snd (compileShader dev src ty g)) = draws g"
  "tex_image (snd (compileShader dev src ty g)) = tex_image g"
  "attached (snd (compileShader dev src ty g)) = attached g"
  "canvas (snd (compileShader dev src ty g)) = canvas g"
  "bound_fbo (snd (compileShader dev src ty g)) = bound_fbo g"
  "clock_reads (snd (compileShader dev src ty g)) = clock_reads g"
  "fbo_handles (created (snd (compileShader dev src ty g))) = fbo_handles (created g)"
  "tex_handles (created (snd (compileShader dev src ty g))) = tex_handles (created g)"
  by (simp_all add: compileShader_def gl_create_def gl_delete_def fbo_handles_append tex_handles_append
      split: status.split)

lemma createProgram_frame:
  "draws (snd (createProgram dev vs fs g)) = draws g"
  "tex_image (snd (createProgram dev vs fs g)) = tex_image g"
  "attached (snd (createProgram dev vs fs g)) = attached g"
  "canvas (snd (createProgram dev vs fs g)) = canvas g"
  "bound_fbo (snd (createProgram dev vs fs g)) = bound_fbo g"
  "clock_reads (snd (createProgram dev vs fs g)) = clock_reads g"
  "fbo_handles (created (snd (createProgram dev vs fs g))) = fbo_handles (created g)"
  "tex_handles (created (snd (createProgram dev vs fs g))) = tex_handles (created g)"
  by (simp_all add: createProgram_def compileShader_frame gl_create_def gl_delete_def
      fbo_handles_append tex_handles_append case_prod_beta
      split: status.split sum.split)

lemma getProgram_frame:
  "draws (gl (snd (getProgram dev k P))) = draws (gl P)"
  "tex_image (gl (snd (getProgram dev k P))) = tex_image (gl P)"
  "attached (gl (snd (getProgram dev k P))) = attached (gl P)"
  "canvas (gl (snd (getProgram dev k P))) = canvas (gl P)"
  "bound_fbo (gl (snd (getProgram dev k P))) = bound_fbo (gl P)"
  "clock_reads (gl (snd (getProgram dev k P))) = clock_reads (gl P)"
  "fbo_handles (created (gl (snd (getProgram dev k P)))) = fbo_handles (created (gl P))"
  "tex_handles (created (gl (snd (getProgram dev k P)))) = tex_handles (created (gl P))"
  "framebuffers (snd (getProgram dev k P)) = framebuffers P"
  "textures (snd (getProgram dev k P)) = textures P"
  "positionBuffer (snd (getProgram dev k P)) = positionBuffer P"
  "indexBuffer (snd (getProgram dev k P)) = indexBuffer P"
  "ext (snd (getProgram dev k P)) = ext P"
  by (simp_all add: getProgram_def createProgram_frame case_prod_beta
      split: sum.split option.split)

lemma write_target_frame:
  "draws (write_target t f g) = draws g"
  "attached (write_target t f g) = attached g"
  "bound_fbo (write_target t f g) = bound_fbo g"
  "clock_reads (write_target t f g) = clock_reads g"
  "created (write_target t f g) = created g"
  "deleted (write_target t f g) = deleted g"
  "fresh (write_target t f g) = fresh g"
  by (simp_all add: write_target_def split: option.split)

lemma renderFilter_Inr:
  assumes "renderFilter dev tin k us target w h P = (Inr t, P')"
  shows "\<exists>program. draws (gl P') = draws (gl P) @
            [\<lparr>draw_input = tin, draw_shader = k, draw_program = program, draw_uniforms = us,
              draw_target = target, draw_width = w, draw_height = h\<rparr>]"
    and "attached (gl P') = attached (gl P)"
    and "fbo_handles (created (gl P')) = fbo_handles (created (gl P))"
    and "tex_handles (created (gl P')) = tex_handles (created (gl P))"
    and "framebuffers P' = framebuffers P"
    and "textures P' = textures P"
    and "positionBuffer P' = positionBuffer P"
    and "indexBuffer P' = indexBuffer P"
    and "ext P' = ext P"
    and "bound_fbo (gl P') = target"
  using assms
  by (auto simp: renderFilter_def performance_now_def Let_def gl_create_def write_target_frame
      getProgram_frame fbo_handles_append tex_handles_append case_prod_beta
      split: sum.splits)

lemma renderFilter_rt:
  "attached (gl (snd (renderFilter dev tin k us target w h P))) = attached (gl P)"
  "fbo_handles (created (gl (snd (renderFilter dev tin k us target w h P)))) = fbo_handles (created (gl P))"
  "tex_handles (created (gl (snd (renderFilter dev tin k us target w h P)))) = tex_handles (created (gl P))"
  by (simp_all add: renderFilter_def performance_now_def Let_def gl_create_def write_target_frame
      getProgram_frame fbo_handles_append tex_handles_append case_prod_beta
      split: sum.split)

lemma clear_frame:
  "draws (gl (clear P)) = draws (gl P)"
  "attached (gl (clear P)) = attached (gl P)"
  "created (gl (clear P)) = created (gl P)"
  "deleted (gl (clear P)) = deleted (gl P)"
  "bound_fbo (gl (clear P)) = bound_fbo (gl P)"
  "framebuffers (clear P) = framebuffers P"
  "textures (clear P) = textures P"
  "programs (clear P) = programs P"
  "positionBuffer (clear P) = positionBuffer P"
  "indexBuffer (clear P) = indexBuffer P"
  "ext (clear P) = ext P"
  by (simp_all add: clear_def write_target_frame)

lemma forEach_filter_rt:
  "attached (gl (snd (forEach_filter dev w h n i fs s P))) = attached (gl P)"
  "fbo_handles (created (gl (snd (forEach_filter dev w h n i fs s P)))) = fbo_handles (created (gl P))"
  "tex_handles (created (gl (snd (forEach_filter dev w h n i fs s P)))) = tex_handles (created (gl P))"
  by (induction fs arbitrary: i s P)
     (simp_all add: Let_def case_prod_beta renderFilter_rt split: sum.split)

subsection \<open>The draws of the pass loop\<close>

text \<open>The loop invariant, stated for the passes still to come: pass \<open>j\<close> of the rest draws to
  the canvas when it is the last of the run, and otherwise to the current target for even
  \<open>j\<close> and the other one for odd \<open>j\<close>; it reads what the pass before it wrote to.\<close>

lemma forEach_filter_draws:
  "forEach_filter dev w h n i fs s P = (Inr s', P') \<Longrightarrow> i + length fs = n \<Longrightarrow>
   \<exists>ds. draws (gl P') = draws (gl P) @ ds \<and> length ds = length fs \<and>
     (\<forall>j<length fs.
        draw_target (ds ! j) =
          (if i + j = n - 1 then None
           else Some (framebuffer (if even j then currentFBO s else nextFBO s))) \<and>
        draw_input (ds ! j) =
          (if j = 0 then currentTexture s
           else texture (if even j then nextFBO s else currentFBO s)) \<and>
        draw_shader (ds ! j) = getShaderForFilter (filter_id (fs ! j)) \<and>
        draw_uniforms (ds ! j) = pass_uniforms (draw_input (ds ! j)) w h (fs ! j) \<and>
        draw_width (ds ! j) = w \<and> draw_height (ds ! j) = h)"
proof (induction fs arbitrary: i s P)
  case Nil
  then show ?case by simp
next
  case (Cons f rest)
  let ?last = "int i = int n - 1"
  let ?tgt = "if ?last then None else Some (framebuffer (currentFBO s))"
  let ?us = "pass_uniforms (currentTexture s) w h f"
  let ?s1 = "\<lambda>gpu. if \<not> ?last
                then s\<lparr>currentTexture := texture (currentFBO s), currentFBO := nextFBO s,
                       nextFBO := currentFBO s, totalGpuTime := totalGpuTime s + gpu\<rparr>
                else s\<lparr>totalGpuTime := totalGpuTime s + gpu\<rparr>"
  obtain res P1 where rf:
    "renderFilter dev (currentTexture s) (getShaderForFilter (filter_id f)) ?us ?tgt w h P = (res, P1)"
    by fastforce
  from Cons.prems(1) rf obtain gpu where res: "res = Inr gpu"
    and rec: "forEach_filter dev w h n (Suc i) rest (?s1 gpu) P1 = (Inr s', P')"
    by (auto simp: Let_def split: sum.splits)
  from rf res obtain program where d0: "draws (gl P1) = draws (gl P) @
      [\<lparr>draw_input = currentTexture s, draw_shader = getShaderForFilter (filter_id f),
        draw_program = program, draw_uniforms = ?us, draw_target = ?tgt,
        draw_width = w, draw_height = h\<rparr>]"
    using renderFilter_Inr(1) by blast
  from Cons.prems(2) have n': "Suc i + length rest = n" by simp
  from Cons.IH[OF rec n'] obtain ds where ds: "draws (gl P') = draws (gl P1) @ ds"
    "length ds = length rest"
    and pt: "\<And>j. j < length rest \<Longrightarrow>
        draw_target (ds ! j) =
          (if Suc i + j = n - 1 then None
           else Some (framebuffer (if even j then currentFBO (?s1 gpu) else nextFBO (?s1 gpu)))) \<and>
        draw_input (ds ! j) =
          (if j = 0 then currentTexture (?s1 gpu)
           else texture (if even j then nextFBO (?s1 gpu) else currentFBO (?s1 gpu))) \<and>
        draw_shader (ds ! j) = getShaderForFilter (filter_id (rest ! j)) \<and>
        draw_uniforms (ds ! j) = pass_uniforms (draw_input (ds ! j)) w h (rest ! j) \<and>
        draw_width (ds ! j) = w \<and> draw_height (ds ! j) = h"
    by blast
  let ?d = "\<lparr>draw_input = currentTexture s, draw_shader = getShaderForFilter (filter_id f),
        draw_program = program, draw_uniforms = ?us, draw_target = ?tgt,
        draw_width = w, draw_height = h\<rparr>"
  have last_iff: "?last \<longleftrightarrow> rest = []" using Cons.prems(2) by auto
  have "draws (gl P') = draws (gl P) @ (?d # ds)" using d0 ds by simp
  moreover have "length (?d # ds) = length (f # rest)" using ds by simp
  moreover have "\<forall>j<length (f # rest).
        draw_target ((?d # ds) ! j) =
          (if i + j = n - 1 then None
           else Some (framebuffer (if even j then currentFBO s else nextFBO s))) \<and>
        draw_input ((?d # ds) ! j) =
          (if j = 0 then currentTexture s
           else texture (if even j then nextFBO s else currentFBO s)) \<and>
        draw_shader ((?d # ds) ! j) = getShaderForFilter (filter_id ((f # rest) ! j)) \<and>
        draw_uniforms ((?d # ds) ! j) = pass_uniforms (draw_input ((?d # ds) ! j)) w h ((f # rest) ! j) \<and>
        draw_width ((?d # ds) ! j) = w \<and> draw_height ((?d # ds) ! j) = h"
  proof (intro allI impI)
    fix j assume j: "j < length (f # rest)"
    show "draw_target ((?d # ds) ! j) =
          (if i + j = n - 1 then None
           else Some (framebuffer (if even j then currentFBO s else nextFBO s))) \<and>
        draw_input ((?d # ds) ! j) =
          (if j = 0 then currentTexture s
           else texture (if even j then nextFBO s else currentFBO s)) \<and>
        draw_shader ((?d # ds) ! j) = getShaderForFilter (filter_id ((f # rest) ! j)) \<and>
        draw_uniforms ((?d # ds) ! j) = pass_uniforms (draw_input ((?d # ds) ! j)) w h ((f # rest) ! j) \<and>
        draw_width ((?d # ds) ! j) = w \<and> draw_height ((?d # ds) ! j) = h"
    proof (cases j)
      case 0
      then show ?thesis using Cons.prems(2) by auto
    next
      case (Suc k)
      with j have k: "k < length rest" by simp
      then have nl: "\<not> ?last" using last_iff by auto
      from pt[OF k] nl show ?thesis unfolding Suc by (auto simp: )
    qed
  qed
  ultimately show ?case by blast
qed

subsection \<open>Allocation\<close>

lemma createTexture_Inr:
  assumes "createTexture dev img P = (Inr t, P')"
  shows "t = fresh (gl P)"
    and "created (gl P') = created (gl P) @ [Tex t]"
    and "fresh (gl P') = Suc t"
    and "tex_image (gl P') = (tex_image (gl P))(t \<mapsto> img)"
    and "attached (gl P') = attached (gl P)"
    and "draws (gl P') = draws (gl P)"
    and "canvas (gl P') = canvas (gl P)"
    and "bound_fbo (gl P') = bound_fbo (gl P)"
    and "deleted (gl P') = deleted (gl P)"
    and "textures P' = textures P @ [t]"
    and "framebuffers P' = framebuffers P"
    and "programs P' = programs P"
    and "positionBuffer P' = positionBuffer P"
    and "indexBuffer P' = indexBuffer P"
    and "ext P' = ext P"
  using assms
  by (auto simp: createTexture_def gl_create_def split: if_splits)

lemma createTexture_rt:
  "attached (gl (snd (createTexture dev img P))) = attached (gl P)"
  "fbo_handles (created (gl (snd (createTexture dev img P)))) = fbo_handles (created (gl P))"
  "draws (gl (snd (createTexture dev img P))) = draws (gl P)"
  by (simp_all add: createTexture_def gl_create_def fbo_handles_append)

lemma createFramebuffer_Inr:
  assumes "createFramebuffer dev w h P = (Inr f, P')"
  shows "texture f = fresh (gl P)"
    and "framebuffer f = Suc (fresh (gl P))"
    and "created (gl P') = created (gl P) @ [Tex (texture f), Fbo (framebuffer f)]"
    and "fresh (gl P') = Suc (Suc (fresh (gl P)))"
    and "tex_image (gl P') =
           (tex_image (gl P))(texture f \<mapsto> replicate (nat w * nat h) (0, 0, 0, 0))"
    and "attached (gl P') = (attached (gl P))(framebuffer f \<mapsto> texture f)"
    and "draws (gl P') = draws (gl P)"
    and "canvas (gl P') = canvas (gl P)"
    and "bound_fbo (gl P') = Some (framebuffer f)"
    and "deleted (gl P') = deleted (gl P)"
    and "textures P' = textures P @ [texture f]"
    and "framebuffers P' = framebuffers P @ [framebuffer f]"
    and "programs P' = programs P"
    and "positionBuffer P' = positionBuffer P"
    and "indexBuffer P' = indexBuffer P"
    and "ext P' = ext P"
  using assms
  by (auto simp: createFramebuffer_def gl_create_def Let_def split: if_splits)

lemma createFramebuffer_count:
  "length (fbo_handles (created (gl (snd (createFramebuffer dev w h P)))))
     \<le> Suc (length (fbo_handles (created (gl P))))"
  "draws (gl (snd (createFramebuffer dev w h P))) = draws (gl P)"
  by (simp_all add: createFramebuffer_def gl_create_def Let_def fbo_handles_append)

lemma new_WebGLProcessor_Inr:
  assumes "new_WebGLProcessor dev g = Inr P"
  shows "fbo_handles (created (gl P)) = fbo_handles (created g)"
    and "tex_handles (created (gl P)) = tex_handles (created g)"
    and "attached (gl P) = attached g"
    and "tex_image (gl P) = tex_image g"
    and "draws (gl P) = draws g"
    and "canvas (gl P) = canvas g"
    and "deleted (gl P) = deleted g"
    and "programs P = []" and "framebuffers P = []" and "textures P = []"
    and "ext P = timer_ext dev"
  using assms
  by (auto simp: new_WebGLProcessor_def setupGeometry_def gl_create_def fbo_handles_append
      tex_handles_append split: if_splits)

lemma fold_gl_delete:
  "fold (\<lambda>x. gl_delete (f x)) xs g = g\<lparr>deleted := deleted g @ map f xs\<rparr>"
  by (induction xs arbitrary: g) (simp_all add: gl_delete_def)

lemma destroy_frame:
  "created (gl (destroy P)) = created (gl P)"
  "attached (gl (destroy P)) = attached (gl P)"
  "draws (gl (destroy P)) = draws (gl P)"
  "canvas (gl (destroy P)) = canvas (gl P)"
  "tex_image (gl (destroy P)) = tex_image (gl P)"
  by (simp_all add: destroy_def Let_def fold_gl_delete case_prod_unfold gl_delete_def
      split: option.split)

subsection \<open>A run that succeeds\<close>

lemma try_block_Inr_inv:
  assumes "try_block dev img p w h t0 g = (Inr r, g')"
  shows "\<exists>P0 tin P1 fbo1 P2 fbo2 P3 gpu P4.
      new_WebGLProcessor dev g = Inr P0 \<and>
      createTexture dev img P0 = (Inr tin, P1) \<and>
      createFramebuffer dev w h P1 = (Inr fbo1, P2) \<and>
      createFramebuffer dev w h P2 = (Inr fbo2, P3) \<and>
      render_passes dev (filter enabled p) tin fbo1 fbo2 w h P3 = (Inr gpu, P4) \<and>
      g' = gl (destroy (P4\<lparr>gl := snd (performance_now dev (gl P4))\<rparr>)) \<and>
      r = \<lparr>success = True, gpuTime = gpu,
            totalTime = fst (performance_now dev (gl P4)) - t0,
            memoryUsage = getMemoryUsage w h (int (length (filter enabled p)) + 2),
            imageDataUrl = Some (to_data_url dev (canvas (gl P4))), error = None\<rparr>"
  using assms
  by (auto simp: try_block_def Let_def getCanvasDataURL_def performance_now_def
      split: sum.splits prod.splits)

lemma render_passes_rt:
  "attached (gl (snd (render_passes dev fs tin f1 f2 w h P))) = attached (gl P)"
  "fbo_handles (created (gl (snd (render_passes dev fs tin f1 f2 w h P)))) = fbo_handles (created (gl P))"
  "tex_handles (created (gl (snd (render_passes dev fs tin f1 f2 w h P)))) = tex_handles (created (gl P))"
  by (simp_all add: render_passes_def case_prod_beta renderFilter_rt forEach_filter_rt clear_frame
      split: sum.split)

lemma render_passes_draws:
  assumes "render_passes dev fs tin f1 f2 w h P = (Inr gpu, P')" and "fs \<noteq> []"
  shows "\<exists>ds. draws (gl P') = draws (gl P) @ ds \<and> length ds = length fs \<and>
     (\<forall>j<length fs.
        draw_target (ds ! j) =
          (if j = length fs - 1 then None else Some (framebuffer (if even j then f1 else f2))) \<and>
        draw_input (ds ! j) = (if j = 0 then tin else texture (if even j then f2 else f1)) \<and>
        draw_shader (ds ! j) = getShaderForFilter (filter_id (fs ! j)) \<and>
        draw_uniforms (ds ! j) = pass_uniforms (draw_input (ds ! j)) w h (fs ! j) \<and>
        draw_width (ds ! j) = w \<and> draw_height (ds ! j) = h)"
proof -
  from assms obtain s' where fe: "forEach_filter dev w h (length fs) 0 fs
      \<lparr>currentTexture = tin, currentFBO = f1, nextFBO = f2, totalGpuTime = 0\<rparr> (clear P) = (Inr s', P')"
    by (auto simp: render_passes_def split: sum.splits prod.splits)
  have "0 + length fs = length fs" by simp
  from forEach_filter_draws[OF fe this] show ?thesis
    by (simp only: clear_frame pass_state.simps add_0)
qed

lemma run_success_inv:
  assumes "processImageWithPipeline dev src p w h = (r, g)" and "success r"
  shows "\<exists>img. decode dev src = Some img \<and>
     try_block dev img p w h (now dev 0) ((new_context w h)\<lparr>clock_reads := Suc 0\<rparr>) = (Inr r, g)"
  using assms
  by (auto simp: processImageWithPipeline_def performance_now_def new_context_def
      split: option.splits sum.splits prod.splits)

lemma run_success_handles:
  assumes "processImageWithPipeline dev src p w h = (r, g)" and "success r"
  shows "\<exists>img tin f1 f2 P3 gpu P4.
     decode dev src = Some img \<and>
     render_passes dev (filter enabled p) tin f1 f2 w h P3 = (Inr gpu, P4) \<and>
     draws (gl P3) = [] \<and> draws g = draws (gl P4) \<and>
     tex_handles (created g) = [tin, texture f1, texture f2] \<and>
     fbo_handles (created g) = [framebuffer f1, framebuffer f2] \<and>
     attached g = [framebuffer f1 \<mapsto> texture f1, framebuffer f2 \<mapsto> texture f2] \<and>
     framebuffer f1 \<noteq> framebuffer f2 \<and> texture f1 \<noteq> texture f2 \<and>
     tin \<noteq> texture f1 \<and> tin \<noteq> texture f2 \<and>
     attached (gl P3) = attached g \<and>
     bound_fbo (gl P3) = Some (framebuffer f2) \<and>
     tex_image (gl P3) tin = Some img \<and>
     tex_image (gl P3) (texture f1) = Some (replicate (nat w * nat h) (0, 0, 0, 0)) \<and>
     tex_image (gl P3) (texture f2) = Some (replicate (nat w * nat h) (0, 0, 0, 0)) \<and>
     canvas g = canvas (gl P4) \<and>
     tex_image g = tex_image (gl P4) \<and>
     imageDataUrl r = Some (to_data_url dev (canvas (gl P4)))"
proof -
  from run_success_inv[OF assms] obtain img where img: "decode dev src = Some img"
    and tb: "try_block dev img p w h (now dev 0) ((new_context w h)\<lparr>clock_reads := Suc 0\<rparr>) = (Inr r, g)"
    by blast
  let ?g1 = "(new_context w h)\<lparr>clock_reads := Suc 0\<rparr>"
  from try_block_Inr_inv[OF tb] obtain P0 tin P1 fbo1 P2 fbo2 P3 gpu P4 where
    a: "new_WebGLProcessor dev ?g1 = Inr P0"
    and b: "createTexture dev img P0 = (Inr tin, P1)"
    and c: "createFramebuffer dev w h P1 = (Inr fbo1, P2)"
    and d: "createFramebuffer dev w h P2 = (Inr fbo2, P3)"
    and e: "render_passes dev (filter enabled p) tin fbo1 fbo2 w h P3 = (Inr gpu, P4)"
    and g: "g = gl (destroy (P4\<lparr>gl := snd (performance_now dev (gl P4))\<rparr>))"
    and r: "r = \<lparr>success = True, gpuTime = gpu,
            totalTime = fst (performance_now dev (gl P4)) - now dev 0,
            memoryUsage = getMemoryUsage w h (int (length (filter enabled p)) + 2),
            imageDataUrl = Some (to_data_url dev (canvas (gl P4))), error = None\<rparr>"
    by blast
  have g0: "created ?g1 = []" "attached ?g1 = Map.empty" "draws ?g1 = []"
    by (simp_all add: new_context_def)
  note A = new_WebGLProcessor_Inr[OF a] and B = createTexture_Inr[OF b]
    and C = createFramebuffer_Inr[OF c] and D = createFramebuffer_Inr[OF d]
  have th3: "tex_handles (created (gl P3)) = [tin, texture fbo1, texture fbo2]"
    using A(2) B(2) C(3) D(3) g0 by (simp add: tex_handles_append)
  have fh3: "fbo_handles (created (gl P3)) = [framebuffer fbo1, framebuffer fbo2]"
    using A(1) B(2) C(3) D(3) g0 by (simp add: fbo_handles_append)
  have at3: "attached (gl P3) = [framebuffer fbo1 \<mapsto> texture fbo1, framebuffer fbo2 \<mapsto> texture fbo2]"
    using A(3) B(5) C(6) D(6) g0 by simp
  have d3: "draws (gl P3) = []" using A(5) B(6) C(7) D(7) g0 by simp
  have ne: "framebuffer fbo1 \<noteq> framebuffer fbo2" "texture fbo1 \<noteq> texture fbo2"
    "tin \<noteq> texture fbo1" "tin \<noteq> texture fbo2"
    using B(1,3) C(1,2,4) D(1,2) by simp_all
  have fin: "created g = created (gl P4)" "attached g = attached (gl P4)" "draws g = draws (gl P4)"
    by (simp_all add: g destroy_frame performance_now_def)
  from render_passes_rt[of dev "filter enabled p" tin fbo1 fbo2 w h P3] e
  have "attached (gl P4) = attached (gl P3)"
    "fbo_handles (created (gl P4)) = fbo_handles (created (gl P3))"
    "tex_handles (created (gl P4)) = tex_handles (created (gl P3))"
    by simp_all
  note rt = this
  have bf: "bound_fbo (gl P3) = Some (framebuffer fbo2)" by (rule D(9))
  have ti: "tex_image (gl P3) tin = Some img"
    "tex_image (gl P3) (texture fbo1) = Some (replicate (nat w * nat h) (0, 0, 0, 0))"
    "tex_image (gl P3) (texture fbo2) = Some (replicate (nat w * nat h) (0, 0, 0, 0))"
    using B(4) C(5) D(5) ne by simp_all
  have cv: "canvas g = canvas (gl P4)" by (simp add: g destroy_frame performance_now_def)
  have tx: "tex_image g = tex_image (gl P4)" by (simp add: g destroy_frame performance_now_def)
  have url: "imageDataUrl r = Some (to_data_url dev (canvas (gl P4)))" by (simp add: r)
  have "decode dev src = Some img \<and>
     render_passes dev (filter enabled p) tin fbo1 fbo2 w h P3 = (Inr gpu, P4) \<and>
     draws (gl P3) = [] \<and> draws g = draws (gl P4) \<and>
     tex_handles (created g) = [tin, texture fbo1, texture fbo2] \<and>
     fbo_handles (created g) = [framebuffer fbo1, framebuffer fbo2] \<and>
     attached g = [framebuffer fbo1 \<mapsto> texture fbo1, framebuffer fbo2 \<mapsto> texture fbo2] \<and>
     framebuffer fbo1 \<noteq> framebuffer fbo2 \<and> texture fbo1 \<noteq> texture fbo2 \<and>
     tin \<noteq> texture fbo1 \<and> tin \<noteq> texture fbo2 \<and>
     attached (gl P3) = attached g \<and>
     bound_fbo (gl P3) = Some (framebuffer fbo2) \<and>
     tex_image (gl P3) tin = Some img \<and>
     tex_image (gl P3) (texture fbo1) = Some (replicate (nat w * nat h) (0, 0, 0, 0)) \<and>
     tex_image (gl P3) (texture fbo2) = Some (replicate (nat w * nat h) (0, 0, 0, 0)) \<and>
     canvas g = canvas (gl P4) \<and>
     tex_image g = tex_image (gl P4) \<and>
     imageDataUrl r = Some (to_data_url dev (canvas (gl P4)))"
    using img e d3 th3 fh3 at3 ne fin rt bf ti cv tx url by simp
  then show ?thesis by blast
qed

subsection \<open>Progress\<close>

text \<open>On a device that grants every handle and accepts every shader, nothing throws.\<close>

lemma compileShader_ok:
  assumes "\<And>r. alloc_ok dev r" and "\<And>ty s. compile_status dev ty s = Good"
  shows "\<exists>sh. fst (compileShader dev src ty g) = Inr sh"
  using assms by (simp add: compileShader_def gl_create_def)

lemma createProgram_ok:
  assumes "\<And>r. alloc_ok dev r" and "\<And>ty s. compile_status dev ty s = Good"
    and "\<And>v f. link_status dev v f = Good"
  shows "\<exists>p. fst (createProgram dev vs fs g) = Inr p"
  using assms by (simp add: createProgram_def compileShader_def gl_create_def)

lemma getProgram_ok:
  assumes "\<And>r. alloc_ok dev r" and "\<And>ty s. compile_status dev ty s = Good"
    and "\<And>v f. link_status dev v f = Good"
  shows "\<exists>p. fst (getProgram dev k P) = Inr p"
  using createProgram_ok[OF assms, of basicVertexShader "js_to_string k" "gl P"]
  by (auto simp: getProgram_def case_prod_beta split: option.split sum.split)

lemma renderFilter_ok:
  assumes "\<And>r. alloc_ok dev r" and "\<And>ty s. compile_status dev ty s = Good"
    and "\<And>v f. link_status dev v f = Good"
  shows "\<exists>t. fst (renderFilter dev tin k us target w h P) = Inr t"
  using getProgram_ok[OF assms, of k P]
  by (auto simp: renderFilter_def case_prod_beta Let_def split: sum.split)

lemma forEach_filter_ok:
  assumes "\<And>r. alloc_ok dev r" and "\<And>ty s. compile_status dev ty s = Good"
    and "\<And>v f. link_status dev v f = Good"
  shows "\<exists>s'. fst (forEach_filter dev w h n i fs s P) = Inr s'"
proof (induction fs arbitrary: i s P)
  case Nil
  then show ?case by simp
next
  case (Cons f rest)
  obtain t where "fst (renderFilter dev (currentTexture s) (getShaderForFilter (filter_id f))
      (pass_uniforms (currentTexture s) w h f)
      (if int i = int n - 1 then None else Some (framebuffer (currentFBO s))) w h P) = Inr t"
    using renderFilter_ok[OF assms] by blast
  then show ?case using Cons.IH by (simp add: Let_def case_prod_beta)
qed

lemma render_passes_ok:
  assumes "\<And>r. alloc_ok dev r" and "\<And>ty s. compile_status dev ty s = Good"
    and "\<And>v f. link_status dev v f = Good"
  shows "\<exists>t. fst (render_passes dev fs tin f1 f2 w h P) = Inr t"
proof (cases "fs = []")
  case True
  obtain t where "fst (renderFilter dev tin (Str shaders_passthrough) [(''u_image'', UTex tin)]
      None w h (clear P)) = Inr t"
    using renderFilter_ok[OF assms] by blast
  with True show ?thesis by (simp add: render_passes_def case_prod_beta)
next
  case False
  obtain s' where "fst (forEach_filter dev w h (length fs) 0 fs
      \<lparr>currentTexture = tin, currentFBO = f1, nextFBO = f2, totalGpuTime = 0\<rparr> (clear P)) = Inr s'"
    using forEach_filter_ok[OF assms] by blast
  with False show ?thesis by (simp add: render_passes_def case_prod_beta)
qed

lemma try_block_Inr:
  "try_block dev img pipeline width height t0 g = (Inr r, g') \<Longrightarrow>
     success r \<and> imageDataUrl r \<noteq> None \<and> error r = None \<and>
     memoryUsage r = getMemoryUsage width height (int (length (filter enabled pipeline)) + 2)"
  by (auto simp: try_block_def Let_def split: sum.splits prod.splits)

lemma createTexture_ok:
  assumes "\<And>r. alloc_ok dev r"
  shows "\<exists>t P'. createTexture dev img P = (Inr t, P')"
  using assms by (simp add: createTexture_def gl_create_def)

lemma createFramebuffer_ok:
  assumes "\<And>r. alloc_ok dev r" and "\<And>fb. fbo_complete dev fb"
  shows "\<exists>f P'. createFramebuffer dev w h P = (Inr f, P')"
  using assms by (simp add: createFramebuffer_def gl_create_def Let_def)

lemma try_block_ok:
  assumes "webgl_supported dev" and "\<And>r. alloc_ok dev r" and "\<And>fb. fbo_complete dev fb"
    and "\<And>ty s. compile_status dev ty s = Good" and "\<And>v f. link_status dev v f = Good"
  shows "\<exists>r g'. try_block dev img p w h t0 g = (Inr r, g')"
proof -
  from assms(1) obtain P0 where a: "new_WebGLProcessor dev g = Inr P0"
    by (simp add: new_WebGLProcessor_def)
  obtain tin P1 where b: "createTexture dev img P0 = (Inr tin, P1)"
    using createTexture_ok[OF assms(2)] by blast
  obtain fbo1 P2 where c: "createFramebuffer dev w h P1 = (Inr fbo1, P2)"
    using createFramebuffer_ok[OF assms(2,3)] by blast
  obtain fbo2 P3 where d: "createFramebuffer dev w h P2 = (Inr fbo2, P3)"
    using createFramebuffer_ok[OF assms(2,3)] by blast
  obtain gpu P4 where e: "render_passes dev (filter enabled p) tin fbo1 fbo2 w h P3 = (Inr gpu, P4)"
    using render_passes_ok[OF assms(2,4,5)] by (metis prod.collapse)
  show ?thesis
    by (simp add: try_block_def a b c d e Let_def case_prod_beta)
qed

lemma run_succeeds:
  assumes "webgl_supported dev" and "\<And>r. alloc_ok dev r" and "\<And>fb. fbo_complete dev fb"
    and "\<And>ty s. compile_status dev ty s = Good" and "\<And>v f. link_status dev v f = Good"
    and "decode dev src = Some img"
  shows "success (fst (processImageWithPipeline dev src p w h))"
proof -
  obtain r g where tb: "try_block dev img p w h (now dev 0)
      ((new_context w h)\<lparr>clock_reads := Suc 0\<rparr>) = (Inr r, g)"
    using try_block_ok[OF assms(1-5)] by blast
  from try_block_Inr[OF tb] tb assms(6) show ?thesis
    by (simp add: processImageWithPipeline_def performance_now_def new_context_def)
qed

subsection \<open>The program cache\<close>

lemma getProgram_cached:
  "map_of (programs P) key = Some program \<Longrightarrow> getProgram dev key P = (Inr program, P)"
  by (simp add: getProgram_def)

lemma compileShader_Inr:
  assumes "compileShader dev src ty g = (Inr sh, g')"
  shows "compile_status dev ty src = Good"
    and "created g' = created g @ [Shd sh]"
    and "deleted g' = deleted g"
  using assms
  by (auto simp: compileShader_def gl_create_def gl_delete_def split: if_splits status.splits)

lemma compileShader_Inl:
  assumes "compileShader dev src ty g = (Inl message, g')"
  shows "message = ''Failed to create shader'' \<or>
         (\<exists>info. compile_status dev ty src = Bad info \<and>
                 message = ''Shader compilation error: '' @ template_text info)"
    and "\<forall>p. Prog p \<in> set (created g') \<longrightarrow> Prog p \<in> set (created g)"
  using assms
  by (auto simp: compileShader_def gl_create_def gl_delete_def split: if_splits status.splits)

lemma createProgram_Inr:
  assumes "createProgram dev vs fs g = (Inr program, g')"
  shows "compile_status dev VERTEX_SHADER vs = Good"
    and "compile_status dev FRAGMENT_SHADER fs = Good"
    and "link_status dev vs fs = Good"
    and "\<exists>v f. created g' = created g @ [Shd v, Shd f, Prog program] \<and>
               deleted g' = deleted g @ [Shd v, Shd f]"
proof -
  obtain r1 g1 where c1: "compileShader dev vs VERTEX_SHADER g = (r1, g1)" by fastforce
  with assms obtain v where r1: "r1 = Inr v"
    by (cases r1) (simp_all add: createProgram_def)
  obtain r2 g2 where c2: "compileShader dev fs FRAGMENT_SHADER g1 = (r2, g2)" by fastforce
  with assms c1 r1 obtain f where r2: "r2 = Inr f"
    by (cases r2) (simp_all add: createProgram_def)
  note V = compileShader_Inr[OF c1[unfolded r1]] and F = compileShader_Inr[OF c2[unfolded r2]]
  from assms c1 c2 r1 r2
  have rest: "(case gl_create dev Prog g2 of
                  (None, g3) \<Rightarrow> (Inl ''Failed to create program'', g3)
                | (Some program, g3) \<Rightarrow>
                    (case link_status dev vs fs of
                       Bad info \<Rightarrow>
                         (Inl (''Program linking error: '' @ template_text info),
                          gl_delete (Prog program) g3)
                     | Good \<Rightarrow>
                         (Inr program, gl_delete (Shd f) (gl_delete (Shd v) g3))))
               = (Inr program, g')"
    by (simp add: createProgram_def)
  show "compile_status dev VERTEX_SHADER vs = Good" by (rule V(1))
  show "compile_status dev FRAGMENT_SHADER fs = Good" by (rule F(1))
  from rest show "link_status dev vs fs = Good"
    by (auto simp: gl_create_def split: if_splits status.splits)
  from rest V F show "\<exists>v f. created g' = created g @ [Shd v, Shd f, Prog program] \<and>
               deleted g' = deleted g @ [Shd v, Shd f]"
    by (auto simp: gl_create_def gl_delete_def split: if_splits status.splits)
qed

lemma createProgram_Inl:
  assumes "createProgram dev vs fs g = (Inl message, g')"
  shows "message = ''Failed to create shader'' \<or> message = ''Failed to create program'' \<or>
     (\<exists>info. (compile_status dev VERTEX_SHADER vs = Bad info \<or>
              compile_status dev FRAGMENT_SHADER fs = Bad info) \<and>
             message = ''Shader compilation error: '' @ template_text info) \<or>
     (\<exists>info. link_status dev vs fs = Bad info \<and>
             message = ''Program linking error: '' @ template_text info)"
    and "\<forall>p. Prog p \<in> set (created g') \<longrightarrow> Prog p \<in> set (created g) \<or> Prog p \<in> set (deleted g')"
proof -
  obtain r1 g1 where c1: "compileShader dev vs VERTEX_SHADER g = (r1, g1)" by fastforce
  obtain r2 g2 where c2: "compileShader dev fs FRAGMENT_SHADER g1 = (r2, g2)" by fastforce
  have "(message = ''Failed to create shader'' \<or> message = ''Failed to create program'' \<or>
     (\<exists>info. (compile_status dev VERTEX_SHADER vs = Bad info \<or>
              compile_status dev FRAGMENT_SHADER fs = Bad info) \<and>
             message = ''Shader compilation error: '' @ template_text info) \<or>
     (\<exists>info. link_status dev vs fs = Bad info \<and>
             message = ''Program linking error: '' @ template_text info)) \<and>
    (\<forall>p. Prog p \<in> set (created g') \<longrightarrow> Prog p \<in> set (created g) \<or> Prog p \<in> set (deleted g'))"
  proof (cases r1)
    case (Inl e)
    with assms c1 have "e = message" "g1 = g'" by (simp_all add: createProgram_def)
    with compileShader_Inl[OF c1[unfolded Inl]] show ?thesis by blast
  next
    case v: (Inr v)
    note V = compileShader_Inr[OF c1[unfolded v]]
    show ?thesis
    proof (cases r2)
      case (Inl e)
      with assms c1 c2 v have "e = message" "g2 = g'" by (simp_all add: createProgram_def)
      with compileShader_Inl[OF c2[unfolded Inl]] V show ?thesis by auto
    next
      case f: (Inr f)
      note F = compileShader_Inr[OF c2[unfolded f]]
      from assms c1 c2 v f
      have rest: "(case gl_create dev Prog g2 of
                  (None, g3) \<Rightarrow> (Inl ''Failed to create program'', g3)
                | (Some program, g3) \<Rightarrow>
                    (case link_status dev vs fs of
                       Bad info \<Rightarrow>
                         (Inl (''Program linking error: '' @ template_text info),
                          gl_delete (Prog program) g3)
                     | Good \<Rightarrow>
                         (Inr program, gl_delete (Shd f) (gl_delete (Shd v) g3))))
               = (Inl message, g')"
        by (simp add: createProgram_def)
      then show ?thesis using V F
        by (auto simp: gl_create_def gl_delete_def split: if_splits status.splits)
    qed
  qed
  then show "message = ''Failed to create shader'' \<or> message = ''Failed to create program'' \<or>
     (\<exists>info. (compile_status dev VERTEX_SHADER vs = Bad info \<or>
              compile_status dev FRAGMENT_SHADER fs = Bad info) \<and>
             message = ''Shader compilation error: '' @ template_text info) \<or>
     (\<exists>info. link_status dev vs fs = Bad info \<and>
             message = ''Program linking error: '' @ template_text info)"
    and "\<forall>p. Prog p \<in> set (created g') \<longrightarrow> Prog p \<in> set (created g) \<or> Prog p \<in> set (deleted g')"
    by blast+
qed

subsection \<open>Render targets\<close>

lemma try_block_targets:
  "render_targets (snd (try_block dev img p w h t0 g)) =
   render_targets (snd (try_block dev img [] w h t0 g))"
  by (simp add: try_block_def render_targets_def Let_def case_prod_beta render_passes_rt
      destroy_frame performance_now_def split: sum.split)

lemma try_block_count:
  assumes "fbo_handles (created g) = []"
  shows "length (fbo_handles (created (snd (try_block dev img p w h t0 g)))) \<le> 2"
proof (cases "new_WebGLProcessor dev g")
  case (Inl e)
  then show ?thesis using assms by (simp add: try_block_def)
next
  case (Inr P0)
  let ?P1 = "snd (createTexture dev img P0)"
  let ?P2 = "snd (createFramebuffer dev w h ?P1)"
  let ?P3 = "snd (createFramebuffer dev w h ?P2)"
  have 0: "fbo_handles (created (gl P0)) = []"
    using new_WebGLProcessor_Inr(1)[OF Inr] assms by simp
  have 1: "fbo_handles (created (gl ?P1)) = []" using 0 by (simp add: createTexture_rt)
  have 2: "length (fbo_handles (created (gl ?P2))) \<le> 1"
    using createFramebuffer_count(1)[of dev w h ?P1] 1 by simp
  have 3: "length (fbo_handles (created (gl ?P3))) \<le> 2"
    using createFramebuffer_count(1)[of dev w h ?P2] 2 by simp
  from 1 2 3 show ?thesis
    by (simp add: try_block_def Inr Let_def case_prod_beta render_passes_rt destroy_frame
        performance_now_def split: sum.split)
qed

lemma run_targets:
  "render_targets (snd (processImageWithPipeline dev src p w h)) =
   render_targets (snd (processImageWithPipeline dev src [] w h))"
  using try_block_targets
  by (simp add: processImageWithPipeline_def case_prod_beta split: option.split sum.split)

lemma run_target_count:
  "length (render_targets (snd (processImageWithPipeline dev src p w h))) \<le> 2"
proof -
  have "fbo_handles (created (snd (performance_now dev (new_context w h)))) = []"
    by (simp add: performance_now_def new_context_def)
  from try_block_count[OF this] show ?thesis
    by (simp add: processImageWithPipeline_def render_targets_def case_prod_beta new_context_def
        split: option.split sum.split)
qed

subsection \<open>Shader resolution\<close>

lemma shader_texts_nonempty:
  "shaders_passthrough \<noteq> []" "shaders_debug \<noteq> []" "shaders_brightness \<noteq> []"
  "shaders_contrast \<noteq> []" "shaders_saturation \<noteq> []" "shaders_blur \<noteq> []"
  "shaders_sharpen \<noteq> []" "shaders_edge \<noteq> []" "shaders_noise \<noteq> []"
  "shaders_bilateral \<noteq> []"
  by (simp_all add: shaders_passthrough_def shaders_debug_def shaders_brightness_def
      shaders_contrast_def shaders_saturation_def shaders_blur_def shaders_sharpen_def
      shaders_edge_def shaders_noise_def shaders_bilateral_def)

lemma registered_truthy: "map_of shaders k = Some s \<Longrightarrow> s \<noteq> []"
  by (auto simp: shaders_def shader_texts_nonempty split: if_splits)

lemma getShaderForFilter_registered:
  "map_of shaders (takeWhile (\<lambda>c. c \<noteq> CHR ''-'') filterId) = Some s \<Longrightarrow>
   getShaderForFilter filterId = Str s"
  by (simp add: getShaderForFilter_def js_get_def registered_truthy)

lemma getShaderForFilter_unknown:
  "map_of shaders (takeWhile (\<lambda>c. c \<noteq> CHR ''-'') filterId) = None \<Longrightarrow>
   takeWhile (\<lambda>c. c \<noteq> CHR ''-'') filterId \<notin> set object_prototype_keys \<Longrightarrow>
   getShaderForFilter filterId = Str shaders_passthrough"
  by (simp add: getShaderForFilter_def js_get_def)

lemma getShaderForFilter_inherited:
  "map_of shaders (takeWhile (\<lambda>c. c \<noteq> CHR ''-'') filterId) = None \<Longrightarrow>
   takeWhile (\<lambda>c. c \<noteq> CHR ''-'') filterId \<in> set object_prototype_keys \<Longrightarrow>
   getShaderForFilter filterId = Inherited (takeWhile (\<lambda>c. c \<noteq> CHR ''-'') filterId)"
  by (simp add: getShaderForFilter_def js_get_def)

subsection \<open>Disabled filters\<close>

lemma run_enabled_only:
  "processImageWithPipeline dev src p w h = processImageWithPipeline dev src (filter enabled p) w h"
proof -
  have f: "filter enabled (filter enabled p) = filter enabled p" by simp
  show ?thesis unfolding processImageWithPipeline_def try_block_def f ..
qed

subsection \<open>Pixels\<close>

text \<open>The texture a pass reads is never the one it writes, so the canvas ends up holding
  the source image put through the draws in order.\<close>

lemma texel_data_cong: "tex_image g t = tex_image g' t \<Longrightarrow> texel_data g t = texel_data g' t"
  by (simp add: texel_data_def)

lemma renderFilter_canvas:
  assumes "renderFilter dev tin k us None w h P = (Inr t, P')"
  shows "canvas (gl P') = exec dev (js_to_string k) us w h (texel_data (gl P) tin)"
    and "tex_image (gl P') = tex_image (gl P)"
proof -
  obtain program P1 where gp: "getProgram dev k P = (Inr program, P1)"
    using assms by (auto simp: renderFilter_def split: sum.splits prod.splits)
  from getProgram_frame(2)[of dev k P] gp have ti: "tex_image (gl P1) = tex_image (gl P)" by simp
  from assms gp ti show "canvas (gl P') = exec dev (js_to_string k) us w h (texel_data (gl P) tin)"
    by (auto simp: renderFilter_def performance_now_def Let_def write_target_def gl_create_def
        texel_data_def)
  from assms gp ti show "tex_image (gl P') = tex_image (gl P)"
    by (auto simp: renderFilter_def performance_now_def Let_def write_target_def gl_create_def)
qed

lemma clear_offscreen:
  assumes "bound_fbo (gl P) = Some fb" and "attached (gl P) fb = Some t'" and "t \<noteq> t'"
  shows "tex_image (gl (clear P)) t = tex_image (gl P) t"
    and "canvas (gl (clear P)) = canvas (gl P)"
  using assms by (simp_all add: clear_def write_target_def split: option.split)

lemma renderFilter_offscreen:
  assumes "renderFilter dev tin k us (Some fb) w h P = (Inr t, P')"
    and "attached (gl P) fb = Some t'" and "tex_image (gl P) t' = Some old"
  shows "tex_image (gl P') =
           (tex_image (gl P))(t' \<mapsto> exec dev (js_to_string k) us w h (texel_data (gl P) tin))"
proof -
  obtain program P1 where gp: "getProgram dev k P = (Inr program, P1)"
    using assms(1) by (auto simp: renderFilter_def split: sum.splits prod.splits)
  from getProgram_frame(2,3)[of dev k P] gp
  have ti: "tex_image (gl P1) = tex_image (gl P)" and at: "attached (gl P1) = attached (gl P)"
    by simp_all
  from assms gp ti at show ?thesis
    by (auto simp: renderFilter_def performance_now_def Let_def write_target_def gl_create_def
        texel_data_def)
qed

lemma forEach_filter_pixels:
  "forEach_filter dev w h n i fs s P = (Inr s', P') \<Longrightarrow> i + length fs = n \<Longrightarrow> fs \<noteq> [] \<Longrightarrow>
   attached (gl P) (framebuffer (currentFBO s)) = Some (texture (currentFBO s)) \<Longrightarrow>
   attached (gl P) (framebuffer (nextFBO s)) = Some (texture (nextFBO s)) \<Longrightarrow>
   tex_image (gl P) (texture (currentFBO s)) \<noteq> None \<Longrightarrow>
   tex_image (gl P) (texture (nextFBO s)) \<noteq> None \<Longrightarrow>
   texture (currentFBO s) \<noteq> texture (nextFBO s) \<Longrightarrow>
   \<exists>ds. draws (gl P') = draws (gl P) @ ds \<and>
        canvas (gl P') = fold (replay dev) ds (texel_data (gl P) (currentTexture s))"
proof (induction fs arbitrary: i s P)
  case Nil
  then show ?case by simp
next
  case (Cons f rest)
  let ?last = "int i = int n - 1"
  let ?tgt = "if ?last then None else Some (framebuffer (currentFBO s))"
  let ?k = "getShaderForFilter (filter_id f)"
  let ?us = "pass_uniforms (currentTexture s) w h f"
  let ?out = "exec dev (js_to_string ?k) ?us w h (texel_data (gl P) (currentTexture s))"
  let ?s1 = "\<lambda>gpu. if \<not> ?last
                then s\<lparr>currentTexture := texture (currentFBO s), currentFBO := nextFBO s,
                       nextFBO := currentFBO s, totalGpuTime := totalGpuTime s + gpu\<rparr>
                else s\<lparr>totalGpuTime := totalGpuTime s + gpu\<rparr>"
  obtain res P1 where rf: "renderFilter dev (currentTexture s) ?k ?us ?tgt w h P = (res, P1)"
    by fastforce
  from Cons.prems(1) rf obtain gpu where res: "res = Inr gpu"
    and rec: "forEach_filter dev w h n (Suc i) rest (?s1 gpu) P1 = (Inr s', P')"
    by (auto simp: Let_def split: sum.splits)
  note rf' = rf[unfolded res]
  from renderFilter_Inr(1)[OF rf'] obtain program where d0: "draws (gl P1) = draws (gl P) @
      [\<lparr>draw_input = currentTexture s, draw_shader = ?k,
        draw_program = program, draw_uniforms = ?us, draw_target = ?tgt,
        draw_width = w, draw_height = h\<rparr>]"
    by blast
  let ?d = "\<lparr>draw_input = currentTexture s, draw_shader = ?k,
        draw_program = program, draw_uniforms = ?us, draw_target = ?tgt,
        draw_width = w, draw_height = h\<rparr>"
  have step: "replay dev ?d (texel_data (gl P) (currentTexture s)) = ?out"
    by (simp add: replay_def)
  have last_iff: "?last \<longleftrightarrow> rest = []" using Cons.prems(2) by auto
  show ?case
  proof (cases "rest = []")
    case True
    then have l: "?last" using last_iff by simp
    from rec True have P': "P' = P1" by simp
    from rf' l have "renderFilter dev (currentTexture s) ?k ?us None w h P = (Inr gpu, P1)"
      by simp
    from renderFilter_canvas(1)[OF this] have "canvas (gl P1) = ?out" .
    with d0 P' step show ?thesis by simp
  next
    case False
    then have nl: "\<not> ?last" using last_iff by simp
    from rf' nl have rfo: "renderFilter dev (currentTexture s) ?k ?us
        (Some (framebuffer (currentFBO s))) w h P = (Inr gpu, P1)" by simp
    from Cons.prems(6) obtain old where old: "tex_image (gl P) (texture (currentFBO s)) = Some old"
      by blast
    from renderFilter_offscreen[OF rfo Cons.prems(4) old]
    have ti: "tex_image (gl P1) = (tex_image (gl P))(texture (currentFBO s) \<mapsto> ?out)" .
    have at: "attached (gl P1) = attached (gl P)" by (rule renderFilter_Inr(2)[OF rf'])
    have n': "Suc i + length rest = n" using Cons.prems(2) by simp
    from Cons.IH[OF rec n' False] nl at ti Cons.prems(4,5,6,7,8)
    obtain ds where ds: "draws (gl P') = draws (gl P1) @ ds"
      and cv: "canvas (gl P') = fold (replay dev) ds (texel_data (gl P1) (currentTexture (?s1 gpu)))"
      by auto
    from nl ti have "texel_data (gl P1) (currentTexture (?s1 gpu)) = ?out"
      by (simp add: texel_data_def)
    with cv step have "canvas (gl P') = fold (replay dev) (?d # ds) (texel_data (gl P) (currentTexture s))"
      by simp
    moreover have "draws (gl P') = draws (gl P) @ (?d # ds)" using d0 ds by simp
    ultimately show ?thesis by blast
  qed
qed

lemma clear_defined:
  "tex_image (gl P) t \<noteq> None \<Longrightarrow> tex_image (gl (clear P)) t \<noteq> None"
  by (auto simp: clear_def write_target_def split: option.splits)

lemma run_canvas_replay:
  assumes "processImageWithPipeline dev src p w h = (r, g)" and "success r"
  shows "\<exists>img. decode dev src = Some img \<and> canvas g = fold (replay dev) (draws g) img"
proof -
  from run_success_handles[OF assms] obtain img tin f1 f2 P3 gpu P4 where
    img: "decode dev src = Some img"
    and e: "render_passes dev (filter enabled p) tin f1 f2 w h P3 = (Inr gpu, P4)"
    and d3: "draws (gl P3) = []" and dg: "draws g = draws (gl P4)"
    and at: "attached g = [framebuffer f1 \<mapsto> texture f1, framebuffer f2 \<mapsto> texture f2]"
    and ne: "framebuffer f1 \<noteq> framebuffer f2" "texture f1 \<noteq> texture f2" "tin \<noteq> texture f2"
    and at3: "attached (gl P3) = attached g"
    and bf: "bound_fbo (gl P3) = Some (framebuffer f2)"
    and ti: "tex_image (gl P3) tin = Some img"
      "tex_image (gl P3) (texture f1) = Some (replicate (nat w * nat h) (0, 0, 0, 0))"
      "tex_image (gl P3) (texture f2) = Some (replicate (nat w * nat h) (0, 0, 0, 0))"
    and cv: "canvas g = canvas (gl P4)"
    by blast
  have a1: "attached (gl (clear P3)) (framebuffer f1) = Some (texture f1)"
    and a2: "attached (gl (clear P3)) (framebuffer f2) = Some (texture f2)"
    using at at3 ne by (simp_all add: clear_frame)
  have "attached (gl P3) (framebuffer f2) = Some (texture f2)" using at at3 by simp
  from clear_offscreen(1)[OF bf this ne(3)] ti(1)
  have src: "texel_data (gl (clear P3)) tin = img" by (simp add: texel_data_def)
  have t1: "tex_image (gl (clear P3)) (texture f1) \<noteq> None"
    and t2: "tex_image (gl (clear P3)) (texture f2) \<noteq> None"
    using ti(2,3) by (simp_all add: clear_defined)
  have "canvas (gl P4) = fold (replay dev) (draws (gl P4)) img"
  proof (cases "filter enabled p = []")
    case True
    let ?us = "[(''u_image'', UTex tin)]"
    from e True obtain t where
      rf: "renderFilter dev tin (Str shaders_passthrough) ?us None w h (clear P3) = (Inr t, P4)"
      by (auto simp: render_passes_def split: sum.splits prod.splits)
    from renderFilter_canvas(1)[OF rf] src
    have "canvas (gl P4) = exec dev shaders_passthrough ?us w h img" by simp
    moreover from renderFilter_Inr(1)[OF rf] d3 obtain program where
      "draws (gl P4) =
         [\<lparr>draw_input = tin, draw_shader = Str shaders_passthrough, draw_program = program,
           draw_uniforms = ?us, draw_target = None, draw_width = w, draw_height = h\<rparr>]"
      by (auto simp: clear_frame)
    ultimately show ?thesis by (simp add: replay_def)
  next
    case False
    from e False obtain s' where fe: "forEach_filter dev w h (length (filter enabled p)) 0
        (filter enabled p)
        \<lparr>currentTexture = tin, currentFBO = f1, nextFBO = f2, totalGpuTime = 0\<rparr> (clear P3)
        = (Inr s', P4)"
      by (auto simp: render_passes_def split: sum.splits prod.splits)
    from forEach_filter_pixels[OF fe _ False] a1 a2 t1 t2 ne(2) src d3
    show ?thesis by (auto simp: clear_frame)
  qed
  with img cv dg show ?thesis by simp
qed




subsection \<open>The ledger on the success path\<close>

lemma new_WebGLProcessor_tracked:
  assumes "new_WebGLProcessor dev g = Inr P" and "created g = []" and "deleted g = []"
  shows "tracked P"
  using assms
  by (auto simp: new_WebGLProcessor_def setupGeometry_def gl_create_def tracked_def held_def
      buffer_list_def split: if_splits)

lemma createTexture_tracked:
  assumes "createTexture dev img P = (Inr t, P')" and "tracked P"
  shows "tracked P'"
  using assms(2) createTexture_Inr[OF assms(1)]
  by (simp add: tracked_def held_def)

lemma createFramebuffer_tracked:
  assumes "createFramebuffer dev w h P = (Inr f, P')" and "tracked P"
  shows "tracked P'"
  using assms(2) createFramebuffer_Inr[OF assms(1)]
  by (simp add: tracked_def held_def)

lemma clear_tracked: "tracked (clear P) = tracked P"
  by (simp add: tracked_def held_def clear_frame)

lemma update_absent: "map_of al k = None \<Longrightarrow> AList.update k v al = al @ [(k, v)]"
  by (induction al) (auto split: if_splits)

lemma getProgram_tracked:
  assumes "getProgram dev k P = (Inr program, P')" and "tracked P"
  shows "tracked P'"
proof (cases "map_of (programs P) k")
  case (Some p)
  with assms show ?thesis by (simp add: getProgram_def)
next
  case None
  obtain res g' where cp: "createProgram dev basicVertexShader (js_to_string k) (gl P) = (res, g')"
    by fastforce
  with assms(1) None have res: "res = Inr program"
    and P': "P' = P\<lparr>gl := g', programs := AList.update k program (programs P)\<rparr>"
    by (auto simp: getProgram_def split: sum.splits)
  from createProgram_Inr(4)[OF cp[unfolded res]] obtain v f where
    "created g' = created (gl P) @ [Shd v, Shd f, Prog program]"
    "deleted g' = deleted (gl P) @ [Shd v, Shd f]"
    by blast
  with assms(2) None show ?thesis
    by (simp add: P' tracked_def held_def update_absent)
qed

lemma renderFilter_tracked:
  assumes "renderFilter dev tin k us target w h P = (Inr t, P')" and "tracked P"
  shows "tracked P'"
proof -
  obtain program P1 where gp: "getProgram dev k P = (Inr program, P1)"
    using assms(1) by (auto simp: renderFilter_def split: sum.splits prod.splits)
  from getProgram_tracked[OF gp assms(2)] have t1: "tracked P1" .
  from assms(1) gp
  have "deleted (gl P') = deleted (gl P1)" "held P' = held P1"
    "filter (\<lambda>r. \<not> is_query r) (created (gl P')) = filter (\<lambda>r. \<not> is_query r) (created (gl P1))"
    by (auto simp: renderFilter_def performance_now_def Let_def gl_create_def write_target_frame
        held_def)
  with t1 show ?thesis by (simp add: tracked_def)
qed

lemma forEach_filter_tracked:
  "forEach_filter dev w h n i fs s P = (Inr s', P') \<Longrightarrow> tracked P \<Longrightarrow> tracked P'"
proof (induction fs arbitrary: i s P)
  case Nil
  then show ?case by simp
next
  case (Cons f rest)
  obtain res P1 where rf: "renderFilter dev (currentTexture s) (getShaderForFilter (filter_id f))
      (pass_uniforms (currentTexture s) w h f)
      (if int i = int n - 1 then None else Some (framebuffer (currentFBO s))) w h P = (res, P1)"
    by fastforce
  from Cons.prems(1) rf obtain gpu s1 where res: "res = Inr gpu"
    and rec: "forEach_filter dev w h n (Suc i) rest s1 P1 = (Inr s', P')"
    by (auto simp: Let_def split: sum.splits)
  from renderFilter_tracked[OF rf[unfolded res] Cons.prems(2)] have "tracked P1" .
  from Cons.IH[OF rec this] show ?case .
qed

lemma render_passes_tracked:
  assumes "render_passes dev fs tin f1 f2 w h P = (Inr gpu, P')" and "tracked P"
  shows "tracked P'"
proof (cases "fs = []")
  case True
  with assms(1) obtain t where
    "renderFilter dev tin (Str shaders_passthrough) [(''u_image'', UTex tin)] None w h (clear P)
       = (Inr t, P')"
    by (auto simp: render_passes_def split: sum.splits prod.splits)
  from renderFilter_tracked[OF this] assms(2) show ?thesis by (simp add: clear_tracked)
next
  case False
  with assms(1) obtain s' where "forEach_filter dev w h (length fs) 0 fs
      \<lparr>currentTexture = tin, currentFBO = f1, nextFBO = f2, totalGpuTime = 0\<rparr> (clear P) = (Inr s', P')"
    by (auto simp: render_passes_def split: sum.splits prod.splits)
  from forEach_filter_tracked[OF this] assms(2) show ?thesis by (simp add: clear_tracked)
qed

lemma destroy_balanced:
  assumes "tracked P"
  shows "mset (filter (\<lambda>r. \<not> is_query r) (created (gl (destroy P)))) = mset (deleted (gl (destroy P)))"
proof -
  have "deleted (gl (destroy P)) =
      deleted (gl P) @ map (\<lambda>kp. Prog (snd kp)) (programs P) @ map Fbo (framebuffers P) @
      map Tex (textures P) @ buffer_list (positionBuffer P) @ buffer_list (indexBuffer P)"
    by (simp add: destroy_def Let_def fold_gl_delete case_prod_unfold gl_delete_def buffer_list_def
        split: option.split)
  with assms show ?thesis by (simp add: tracked_def held_def destroy_frame)
qed

lemma successful_run_balanced:
  assumes "processImageWithPipeline dev src p w h = (r, g)" and "success r"
  shows "mset (filter (\<lambda>r. \<not> is_query r) (created g)) = mset (deleted g)"
proof -
  from run_success_inv[OF assms] obtain img where
    tb: "try_block dev img p w h (now dev 0) ((new_context w h)\<lparr>clock_reads := Suc 0\<rparr>) = (Inr r, g)"
    by blast
  let ?g1 = "(new_context w h)\<lparr>clock_reads := Suc 0\<rparr>"
  from try_block_Inr_inv[OF tb] obtain P0 tin P1 fbo1 P2 fbo2 P3 gpu P4 where
    a: "new_WebGLProcessor dev ?g1 = Inr P0"
    and b: "createTexture dev img P0 = (Inr tin, P1)"
    and c: "createFramebuffer dev w h P1 = (Inr fbo1, P2)"
    and d: "createFramebuffer dev w h P2 = (Inr fbo2, P3)"
    and e: "render_passes dev (filter enabled p) tin fbo1 fbo2 w h P3 = (Inr gpu, P4)"
    and g: "g = gl (destroy (P4\<lparr>gl := snd (performance_now dev (gl P4))\<rparr>))"
    by blast
  have "tracked P0" by (rule new_WebGLProcessor_tracked[OF a]) (simp_all add: new_context_def)
  then have "tracked P1" by (rule createTexture_tracked[OF b])
  then have "tracked P2" by (rule createFramebuffer_tracked[OF c])
  then have "tracked P3" by (rule createFramebuffer_tracked[OF d])
  then have "tracked P4" by (rule render_passes_tracked[OF e])
  then have "tracked (P4\<lparr>gl := snd (performance_now dev (gl P4))\<rparr>)"
    by (simp add: tracked_def held_def performance_now_def)
  from destroy_balanced[OF this] show ?thesis by (simp add: g)
qed

subsection \<open>Evaluation on the concrete devices\<close>

lemma shader_texts_hd:
  "\<forall>s \<in> set (basicVertexShader # map snd shaders). hd s = CHR ''\<newline>''"
  by (simp add: shaders_def basicVertexShader_def shaders_passthrough_def shaders_debug_def
      shaders_brightness_def
      shaders_contrast_def shaders_saturation_def shaders_blur_def shaders_sharpen_def
      shaders_edge_def shaders_noise_def shaders_bilateral_def)

lemma strict_rejects:
  "compile_status strict_compiler FRAGMENT_SHADER (js_to_string (Inherited ''constructor''))
     = Bad (Some ''ERROR: 0:1: syntax error'')"
proof -
  have "js_to_string (Inherited ''constructor'') \<notin> set (basicVertexShader # map snd shaders)"
    using shader_texts_hd by (auto simp del: set_simps list.set)
  then show ?thesis by (simp add: strict_compiler_def demo_device_def del: js_to_string.simps)
qed

lemma strict_accepts:
  "compile_status strict_compiler ty basicVertexShader = Good"
  "compile_status strict_compiler ty shaders_passthrough = Good"
  by (simp_all add: strict_compiler_def demo_device_def shaders_def)

lemmas run_defs = processImageWithPipeline_def try_block_def new_context_def performance_now_def
  new_WebGLProcessor_def setupGeometry_def gl_create_def gl_delete_def createTexture_def
  createFramebuffer_def render_passes_def clear_def write_target_def renderFilter_def
  getProgram_def createProgram_def compileShader_def pass_uniforms_def texel_data_def
  template_text_def Let_def

lemma strict_fields:
  "webgl_supported strict_compiler" "\<not> timer_ext strict_compiler"
  "alloc_ok strict_compiler r" "fbo_complete strict_compiler fb"
  "decode strict_compiler src = Some [(255, 0, 0, 255)]"
  "link_status strict_compiler vs fs = Good"
  by (simp_all add: strict_compiler_def demo_device_def)

lemma getShaderForFilter_constructor:
  "getShaderForFilter ''constructor-1'' = Inherited ''constructor''"
  by (simp add: getShaderForFilter_def js_get_def shaders_def object_prototype_keys_def)

lemma getShaderForFilter_brightness:
  "getShaderForFilter ''brightness-1'' = Str shaders_brightness"
  by (rule getShaderForFilter_registered) (simp add: shaders_def)

subsection \<open>The two shapes of a result\<close>

lemma run_result_shape:
  "(success (fst (processImageWithPipeline dev src p w h)) \<and>
    (\<exists>url. imageDataUrl (fst (processImageWithPipeline dev src p w h)) = Some url) \<and>
    error (fst (processImageWithPipeline dev src p w h)) = None \<and>
    memoryUsage (fst (processImageWithPipeline dev src p w h)) =
      getMemoryUsage w h (int (length (filter enabled p)) + 2))
   \<or>
   (\<not> success (fst (processImageWithPipeline dev src p w h)) \<and>
    gpuTime (fst (processImageWithPipeline dev src p w h)) = 0 \<and>
    totalTime (fst (processImageWithPipeline dev src p w h)) = 0 \<and>
    memoryUsage (fst (processImageWithPipeline dev src p w h)) = 0 \<and>
    imageDataUrl (fst (processImageWithPipeline dev src p w h)) = None \<and>
    (\<exists>m. error (fst (processImageWithPipeline dev src p w h)) = Some m))"
  by (auto simp: processImageWithPipeline_def split: option.splits prod.splits sum.splits
      dest: try_block_Inr)

lemma demo_device_succeeds:
  "success (fst (processImageWithPipeline demo_device src p w h))"
  by (rule run_succeeds[where img = "[(255, 0, 0, 255)]"]) (simp_all add: demo_device_def)

lemma demo_pipeline_enabled:
  "filter enabled demo_pipeline =
     [demo_filter ''brightness-1'' True, demo_filter ''contrast-3'' True]"
  by (simp add: demo_pipeline_def demo_filter_def)

section \<open>The properties of the specification\<close>

text \<open>
  C1. On the device whose driver rejects every fragment shader, the run over the demo
  pipeline resolves with \<open>success = false\<close> and the compile error as its message. The
  context is left with two buffers, three textures, two framebuffers and the vertex
  shader created and not deleted: the only deletion is that of the fragment shader that
  failed to compile. The \<^verbatim>\<open>catch\<close> block does not call \<^verbatim>\<open>destroy\<close>. A run that
  succeeds does release every handle it created, timer queries apart
  (\<open>successful_run_balanced\<close>).
\<close>

theorem failed_run_leaks:
  "\<not> success (fst (processImageWithPipeline broken_compiler ''a.png'' demo_pipeline 4 4)) \<and>
   error (fst (processImageWithPipeline broken_compiler ''a.png'' demo_pipeline 4 4))
     = Some ''Shader compilation error: ERROR: 0:1: syntax error'' \<and>
   created (snd (processImageWithPipeline broken_compiler ''a.png'' demo_pipeline 4 4))
     = [Buf 0, Buf 1, Tex 2, Tex 3, Fbo 4, Tex 5, Fbo 6, Shd 7, Shd 8] \<and>
   deleted (snd (processImageWithPipeline broken_compiler ''a.png'' demo_pipeline 4 4))
     = [Shd 8] \<and>
   mset (created (snd (processImageWithPipeline broken_compiler ''a.png'' demo_pipeline 4 4)))
     \<noteq> mset (deleted (snd (processImageWithPipeline broken_compiler ''a.png'' demo_pipeline 4 4)))"
proof -
  let ?R = "processImageWithPipeline broken_compiler ''a.png'' demo_pipeline 4 4"
  have e: "\<not> success (fst ?R) \<and>
      error (fst ?R) = Some ''Shader compilation error: ERROR: 0:1: syntax error'' \<and>
      created (snd ?R) = [Buf 0, Buf 1, Tex 2, Tex 3, Fbo 4, Tex 5, Fbo 6, Shd 7, Shd 8] \<and>
      deleted (snd ?R) = [Shd 8]"
    by (simp add: run_defs broken_compiler_def demo_device_def demo_pipeline_def demo_filter_def
        getShaderForFilter_brightness)
  then have "length (created (snd ?R)) \<noteq> length (deleted (snd ?R))" by simp
  then have "mset (created (snd ?R)) \<noteq> mset (deleted (snd ?R))"
    using mset_eq_length by blast
  with e show ?thesis by simp
qed

text \<open>
  C2. The off-screen render targets a run allocates do not depend on the pipeline: on
  the same device, image and size, any two pipelines give the same list of framebuffers
  with their attached textures. There are never more than two. Where some pipeline
  makes the run succeed, every pipeline's run has allocated exactly two, distinct, each
  with a texture of its own attached; this covers a run that fails later, in a pass.
\<close>

theorem two_render_targets:
  "render_targets (snd (processImageWithPipeline dev imageSrc pipeline width height)) =
     render_targets (snd (processImageWithPipeline dev imageSrc pipeline' width height)) \<and>
   length (render_targets (snd (processImageWithPipeline dev imageSrc pipeline width height))) \<le> 2 \<and>
   (success (fst (processImageWithPipeline dev imageSrc pipeline' width height)) \<longrightarrow>
      (\<exists>fb1 t1 fb2 t2.
         render_targets (snd (processImageWithPipeline dev imageSrc pipeline width height)) =
           [(fb1, Some t1), (fb2, Some t2)] \<and> fb1 \<noteq> fb2 \<and> t1 \<noteq> t2))"
proof (intro conjI impI)
  let ?R = "processImageWithPipeline dev imageSrc pipeline width height"
  let ?R' = "processImageWithPipeline dev imageSrc pipeline' width height"
  show same: "render_targets (snd ?R) = render_targets (snd ?R')"
    using run_targets[of dev imageSrc pipeline width height]
      run_targets[of dev imageSrc pipeline' width height] by simp
  show "length (render_targets (snd ?R)) \<le> 2"
    by (rule run_target_count)
  assume s: "success (fst ?R')"
  from run_success_handles[OF prod.collapse[symmetric] s]
  obtain f1 f2 :: fbo where
    "fbo_handles (created (snd ?R')) = [framebuffer f1, framebuffer f2]"
    "attached (snd ?R') = [framebuffer f1 \<mapsto> texture f1, framebuffer f2 \<mapsto> texture f2]"
    "framebuffer f1 \<noteq> framebuffer f2" "texture f1 \<noteq> texture f2"
    by blast
  then have "render_targets (snd ?R') =
           [(framebuffer f1, Some (texture f1)), (framebuffer f2, Some (texture f2))] \<and>
           framebuffer f1 \<noteq> framebuffer f2 \<and> texture f1 \<noteq> texture f2"
    by (simp add: render_targets_def)
  then show "\<exists>fb1 t1 fb2 t2.
         render_targets (snd ?R) = [(fb1, Some t1), (fb2, Some t2)] \<and> fb1 \<noteq> fb2 \<and> t1 \<noteq> t2"
    unfolding same by blast
qed

theorem two_render_targets_witness:
  "success (fst (processImageWithPipeline demo_device ''a.png'' [] 4 4)) \<and>
   render_targets (snd (processImageWithPipeline demo_device ''a.png'' demo_pipeline 4 4)) =
     render_targets (snd (processImageWithPipeline demo_device ''a.png'' [] 4 4)) \<and>
   length (render_targets (snd (processImageWithPipeline demo_device ''a.png'' demo_pipeline 4 4)))
     = 2"
proof -
  note T = two_render_targets[of demo_device "''a.png''" demo_pipeline 4 4 "[]"]
  have s: "success (fst (processImageWithPipeline demo_device ''a.png'' [] 4 4))"
    by (rule demo_device_succeeds)
  from T[THEN conjunct2, THEN conjunct2, rule_format, OF s]
  have "length (render_targets (snd (processImageWithPipeline demo_device ''a.png'' demo_pipeline 4 4)))
     = 2" by auto
  with s T[THEN conjunct1] show ?thesis by (intro conjI)
qed

text \<open>
  C3. In a successful run with \<open>N \<ge> 1\<close> enabled filters there is one draw per enabled
  filter, in pipeline order. Pass \<open>i\<close> draws to the canvas exactly when \<open>i = N - 1\<close>;
  every other pass draws to an off-screen target, the first of the two for even \<open>i\<close> and
  the second for odd \<open>i\<close> (the swap). Pass 0 reads the uploaded input texture, and pass
  \<open>i + 1\<close> reads the texture attached to the framebuffer pass \<open>i\<close> drew into. The
  pixels follow the handles: the canvas at the end holds the decoded source image put
  through the draws one after the other, each draw applied to the output of the one
  before it.
\<close>

theorem pass_routing:
  assumes "processImageWithPipeline dev imageSrc pipeline width height = (r, g)"
    and "success r" and "filter enabled pipeline \<noteq> []"
  shows "length (draws g) = length (filter enabled pipeline) \<and>
    length (fbo_handles (created g)) = 2 \<and>
    (\<forall>i<length (filter enabled pipeline).
       (draw_target (draws g ! i) = None) = (i = length (filter enabled pipeline) - 1) \<and>
       (i \<noteq> length (filter enabled pipeline) - 1 \<longrightarrow>
          draw_target (draws g ! i) = Some (fbo_handles (created g) ! (i mod 2))) \<and>
       (i = 0 \<longrightarrow> draw_input (draws g ! i) = hd (tex_handles (created g))) \<and>
       (Suc i < length (filter enabled pipeline) \<longrightarrow>
          (\<exists>fb. draw_target (draws g ! i) = Some fb \<and>
                attached g fb = Some (draw_input (draws g ! Suc i)))) \<and>
       draw_shader (draws g ! i) = getShaderForFilter (filter_id (filter enabled pipeline ! i))) \<and>
    (\<exists>img. decode dev imageSrc = Some img \<and> canvas g = fold (replay dev) (draws g) img)"
proof -
  let ?fs = "filter enabled pipeline"
  from run_success_handles[OF assms(1,2)] obtain tin f1 f2 P3 gpu P4 where
    e: "render_passes dev ?fs tin f1 f2 width height P3 = (Inr gpu, P4)"
    and d3: "draws (gl P3) = []" and dg: "draws g = draws (gl P4)"
    and th: "tex_handles (created g) = [tin, texture f1, texture f2]"
    and fh: "fbo_handles (created g) = [framebuffer f1, framebuffer f2]"
    and at: "attached g = [framebuffer f1 \<mapsto> texture f1, framebuffer f2 \<mapsto> texture f2]"
    and ne: "framebuffer f1 \<noteq> framebuffer f2"
    by blast
  from render_passes_draws[OF e assms(3)] d3 dg
  have len: "length (draws g) = length ?fs"
    and pt: "\<And>j. j < length ?fs \<Longrightarrow>
        draw_target (draws g ! j) =
          (if j = length ?fs - 1 then None else Some (framebuffer (if even j then f1 else f2))) \<and>
        draw_input (draws g ! j) = (if j = 0 then tin else texture (if even j then f2 else f1)) \<and>
        draw_shader (draws g ! j) = getShaderForFilter (filter_id (?fs ! j))"
    by auto
  have "\<forall>i<length ?fs.
       (draw_target (draws g ! i) = None) = (i = length ?fs - 1) \<and>
       (i \<noteq> length ?fs - 1 \<longrightarrow>
          draw_target (draws g ! i) = Some (fbo_handles (created g) ! (i mod 2))) \<and>
       (i = 0 \<longrightarrow> draw_input (draws g ! i) = hd (tex_handles (created g))) \<and>
       (Suc i < length ?fs \<longrightarrow>
          (\<exists>fb. draw_target (draws g ! i) = Some fb \<and>
                attached g fb = Some (draw_input (draws g ! Suc i)))) \<and>
       draw_shader (draws g ! i) = getShaderForFilter (filter_id (?fs ! i))"
  proof (intro allI impI)
    fix i assume i: "i < length ?fs"
    have m: "i mod 2 = (if even i then 0 else 1)" by presburger
    show "(draw_target (draws g ! i) = None) = (i = length ?fs - 1) \<and>
       (i \<noteq> length ?fs - 1 \<longrightarrow>
          draw_target (draws g ! i) = Some (fbo_handles (created g) ! (i mod 2))) \<and>
       (i = 0 \<longrightarrow> draw_input (draws g ! i) = hd (tex_handles (created g))) \<and>
       (Suc i < length ?fs \<longrightarrow>
          (\<exists>fb. draw_target (draws g ! i) = Some fb \<and>
                attached g fb = Some (draw_input (draws g ! Suc i)))) \<and>
       draw_shader (draws g ! i) = getShaderForFilter (filter_id (?fs ! i))"
      using pt[OF i] pt[of "Suc i"] th fh at ne m by auto
  qed
  moreover have "length (fbo_handles (created g)) = 2" using fh by simp
  moreover note run_canvas_replay[OF assms(1,2)]
  ultimately show ?thesis using len by blast
qed

theorem pass_routing_witness:
  "success (fst (processImageWithPipeline demo_device ''a.png'' demo_pipeline 4 4)) \<and>
   filter enabled demo_pipeline \<noteq> [] \<and>
   length (draws (snd (processImageWithPipeline demo_device ''a.png'' demo_pipeline 4 4))) = 2 \<and>
   draw_target (draws (snd (processImageWithPipeline demo_device ''a.png'' demo_pipeline 4 4)) ! 0)
     \<noteq> None \<and>
   draw_target (draws (snd (processImageWithPipeline demo_device ''a.png'' demo_pipeline 4 4)) ! 1)
     = None"
proof -
  let ?R = "processImageWithPipeline demo_device ''a.png'' demo_pipeline 4 4"
  have s: "success (fst ?R)" by (rule demo_device_succeeds)
  have n: "filter enabled demo_pipeline \<noteq> []" by (simp add: demo_pipeline_enabled)
  have len: "length (filter enabled demo_pipeline) = 2" by (simp add: demo_pipeline_enabled)
  note R = pass_routing[OF prod.collapse[symmetric] s n]
  note A = R[THEN conjunct2, THEN conjunct2, THEN conjunct1, rule_format]
  have l: "length (draws (snd ?R)) = 2" using R[THEN conjunct1] len by simp
  have "0 < length (filter enabled demo_pipeline)" using len by simp
  from A[OF this, THEN conjunct1] len
  have t0: "draw_target (draws (snd ?R) ! 0) \<noteq> None" by simp
  have "1 < length (filter enabled demo_pipeline)" using len by simp
  from A[OF this, THEN conjunct1] len
  have t1: "draw_target (draws (snd ?R) ! 1) = None" by simp
  from s n l t0 t1 show ?thesis by (intro conjI)
qed

text \<open>
  C4. A run depends on the pipeline only through its enabled filters, in their order:
  running a pipeline and running its enabled sub-list give the same result and leave
  the same context. So a pipeline with every filter disabled runs exactly as the empty
  pipeline does. In a successful run with at least one enabled filter the draws are, in
  order, those of the enabled filters: the shader of each and the uniforms built from
  its parameters.
\<close>

theorem enabled_filters_only:
  "processImageWithPipeline dev imageSrc pipeline width height =
     processImageWithPipeline dev imageSrc (filter enabled pipeline) width height \<and>
   ((\<forall>f \<in> set pipeline. \<not> enabled f) \<longrightarrow>
      processImageWithPipeline dev imageSrc pipeline width height =
        processImageWithPipeline dev imageSrc [] width height) \<and>
   (success (fst (processImageWithPipeline dev imageSrc pipeline width height)) \<and>
    filter enabled pipeline \<noteq> [] \<longrightarrow>
      map draw_shader (draws (snd (processImageWithPipeline dev imageSrc pipeline width height)))
        = map (\<lambda>f. getShaderForFilter (filter_id f)) (filter enabled pipeline) \<and>
      map draw_uniforms (draws (snd (processImageWithPipeline dev imageSrc pipeline width height)))
        = map2 (\<lambda>d f. pass_uniforms (draw_input d) width height f)
            (draws (snd (processImageWithPipeline dev imageSrc pipeline width height)))
            (filter enabled pipeline))"
proof (intro conjI impI)
  let ?R = "processImageWithPipeline dev imageSrc pipeline width height"
  let ?fs = "filter enabled pipeline"
  show "?R = processImageWithPipeline dev imageSrc ?fs width height"
    by (rule run_enabled_only)
  {
    assume "\<forall>f \<in> set pipeline. \<not> enabled f"
    then have "?fs = []" by (simp add: filter_empty_conv)
    then show "?R = processImageWithPipeline dev imageSrc [] width height"
      using run_enabled_only[of dev imageSrc pipeline width height] by simp
  }
  assume a: "success (fst ?R) \<and> ?fs \<noteq> []"
  from run_success_handles[OF prod.collapse[symmetric] a[THEN conjunct1]]
  obtain tin f1 f2 P3 gpu P4 where
    e: "render_passes dev ?fs tin f1 f2 width height P3 = (Inr gpu, P4)"
    and d3: "draws (gl P3) = []" and dg: "draws (snd ?R) = draws (gl P4)"
    by blast
  from render_passes_draws[OF e a[THEN conjunct2]] d3 dg
  have len: "length (draws (snd ?R)) = length ?fs"
    and pt: "\<And>j. j < length ?fs \<Longrightarrow>
        draw_shader (draws (snd ?R) ! j) = getShaderForFilter (filter_id (?fs ! j)) \<and>
        draw_uniforms (draws (snd ?R) ! j) =
          pass_uniforms (draw_input (draws (snd ?R) ! j)) width height (?fs ! j)"
    by auto
  show "map draw_shader (draws (snd ?R)) = map (\<lambda>f. getShaderForFilter (filter_id f)) ?fs"
    using len pt by (simp add: list_eq_iff_nth_eq)
  show "map draw_uniforms (draws (snd ?R))
        = map2 (\<lambda>d f. pass_uniforms (draw_input d) width height f) (draws (snd ?R)) ?fs"
    using len pt by (simp add: list_eq_iff_nth_eq)
qed

theorem enabled_filters_only_witness:
  "success (fst (processImageWithPipeline demo_device ''a.png'' demo_pipeline 4 4)) \<and>
   filter enabled demo_pipeline \<noteq> [] \<and>
   map draw_shader (draws (snd (processImageWithPipeline demo_device ''a.png'' demo_pipeline 4 4)))
     = [Str shaders_brightness, Str shaders_contrast] \<and>
   \<not> enabled (demo_filter ''blur-2'' False) \<and>
   processImageWithPipeline demo_device ''a.png'' [demo_filter ''blur-2'' False] 4 4 =
     processImageWithPipeline demo_device ''a.png'' [] 4 4"
proof -
  have s: "success (fst (processImageWithPipeline demo_device ''a.png'' demo_pipeline 4 4))"
    by (rule demo_device_succeeds)
  have n: "filter enabled demo_pipeline \<noteq> []" by (simp add: demo_pipeline_enabled)
  have d: "\<forall>f \<in> set [demo_filter ''blur-2'' False]. \<not> enabled f" by (simp add: demo_filter_def)
  have g: "map (\<lambda>f. getShaderForFilter (filter_id f)) (filter enabled demo_pipeline)
      = [Str shaders_brightness, Str shaders_contrast]"
    by (simp add: demo_pipeline_enabled demo_filter_def getShaderForFilter_registered shaders_def)
  from enabled_filters_only[of demo_device "''a.png''" demo_pipeline 4 4, THEN conjunct2, THEN conjunct2,
      rule_format, OF conjI[OF s n], THEN conjunct1] g
  have m: "map draw_shader (draws (snd (processImageWithPipeline demo_device ''a.png'' demo_pipeline 4 4)))
     = [Str shaders_brightness, Str shaders_contrast]" by simp
  from enabled_filters_only[of demo_device "''a.png''" "[demo_filter ''blur-2'' False]" 4 4, THEN conjunct2,
      THEN conjunct1, THEN mp, OF d]
  have e: "processImageWithPipeline demo_device ''a.png'' [demo_filter ''blur-2'' False] 4 4 =
     processImageWithPipeline demo_device ''a.png'' [] 4 4" .
  have d': "\<not> enabled (demo_filter ''blur-2'' False)" by (simp add: demo_filter_def)
  from s n m d' e show ?thesis by (intro conjI)
qed

text \<open>
  C5. The identifier \<^verbatim>\<open>constructor-1\<close> has the base kind \<^verbatim>\<open>constructor\<close>, which is not
  a key of the shader table. The read \<^verbatim>\<open>shaders[baseId]\<close> finds the member inherited from
  \<^verbatim>\<open>Object.prototype\<close>, which is truthy, so \<^verbatim>\<open>getShaderForFilter\<close> returns it and
  not the passthrough source. On a device whose compiler accepts every source of the
  table, passthrough included, a pipeline with this one filter fails with a shader
  compilation error.
\<close>

theorem inherited_kind_not_passthrough:
  "takeWhile (\<lambda>c. c \<noteq> CHR ''-'') ''constructor-1'' = ''constructor'' \<and>
   map_of shaders ''constructor'' = None \<and>
   getShaderForFilter ''constructor-1'' = Inherited ''constructor'' \<and>
   getShaderForFilter ''constructor-1'' \<noteq> Str shaders_passthrough \<and>
   compile_status strict_compiler FRAGMENT_SHADER shaders_passthrough = Good \<and>
   fst (processImageWithPipeline strict_compiler ''a.png'' [demo_filter ''constructor-1'' True] 4 4)
    = \<lparr>success = False, gpuTime = 0, totalTime = 0, memoryUsage = 0, imageDataUrl = None,
        error = Some ''Shader compilation error: ERROR: 0:1: syntax error''\<rparr>"
proof -
  have a: "takeWhile (\<lambda>c. c \<noteq> CHR ''-'') ''constructor-1'' = ''constructor'' \<and>
   map_of shaders ''constructor'' = None \<and>
   getShaderForFilter ''constructor-1'' = Inherited ''constructor'' \<and>
   getShaderForFilter ''constructor-1'' \<noteq> Str shaders_passthrough"
    by (simp add: getShaderForFilter_def js_get_def shaders_def object_prototype_keys_def)
  have b: "fst (processImageWithPipeline strict_compiler ''a.png'' [demo_filter ''constructor-1'' True] 4 4)
    = \<lparr>success = False, gpuTime = 0, totalTime = 0, memoryUsage = 0, imageDataUrl = None,
        error = Some ''Shader compilation error: ERROR: 0:1: syntax error''\<rparr>"
    by (simp add: run_defs strict_fields strict_rejects strict_accepts demo_filter_def
        getShaderForFilter_constructor del: js_to_string.simps)
  from a b strict_accepts(2)[of FRAGMENT_SHADER] show ?thesis by (intro conjI) simp_all
qed

text \<open>
  C6. \<^verbatim>\<open>getProgram\<close> on a key that is in the cache returns the cached program and
  changes nothing: no shader is created. On a key that is not in the cache it compiles
  and links: when that succeeds, two shaders were created and deleted, one program was
  created, the cache gained exactly this entry, and the next call with the same key
  returns the same program from the cache; when it fails, the cache is as it was, every
  program created in the call has been deleted, and the message is one of the two
  null-handle messages or carries the info log of a failed compile or link.
\<close>

theorem program_cache:
  "(\<forall>program. map_of (programs P) key = Some program \<longrightarrow>
      getProgram dev key P = (Inr program, P)) \<and>
   (map_of (programs P) key = None \<longrightarrow>
      (case getProgram dev key P of
         (Inr program, P') \<Rightarrow>
           compile_status dev VERTEX_SHADER basicVertexShader = Good \<and>
           compile_status dev FRAGMENT_SHADER (js_to_string key) = Good \<and>
           link_status dev basicVertexShader (js_to_string key) = Good \<and>
           (\<exists>v f. created (gl P') = created (gl P) @ [Shd v, Shd f, Prog program] \<and>
                  deleted (gl P') = deleted (gl P) @ [Shd v, Shd f]) \<and>
           map_of (programs P') = (map_of (programs P))(key \<mapsto> program) \<and>
           getProgram dev key P' = (Inr program, P')
       | (Inl message, P') \<Rightarrow>
           programs P' = programs P \<and>
           (message = ''Failed to create shader'' \<or> message = ''Failed to create program'' \<or>
            (\<exists>info. (compile_status dev VERTEX_SHADER basicVertexShader = Bad info \<or>
                     compile_status dev FRAGMENT_SHADER (js_to_string key) = Bad info) \<and>
                    message = ''Shader compilation error: '' @ template_text info) \<or>
            (\<exists>info. link_status dev basicVertexShader (js_to_string key) = Bad info \<and>
                    message = ''Program linking error: '' @ template_text info)) \<and>
           (\<forall>p. Prog p \<in> set (created (gl P')) \<longrightarrow>
                Prog p \<in> set (created (gl P)) \<or> Prog p \<in> set (deleted (gl P')))))"
proof (intro conjI allI impI)
  fix program assume "map_of (programs P) key = Some program"
  then show "getProgram dev key P = (Inr program, P)" by (rule getProgram_cached)
next
  assume miss: "map_of (programs P) key = None"
  obtain res g' where cp: "createProgram dev basicVertexShader (js_to_string key) (gl P) = (res, g')"
    by fastforce
  show "case getProgram dev key P of
         (Inr program, P') \<Rightarrow>
           compile_status dev VERTEX_SHADER basicVertexShader = Good \<and>
           compile_status dev FRAGMENT_SHADER (js_to_string key) = Good \<and>
           link_status dev basicVertexShader (js_to_string key) = Good \<and>
           (\<exists>v f. created (gl P') = created (gl P) @ [Shd v, Shd f, Prog program] \<and>
                  deleted (gl P') = deleted (gl P) @ [Shd v, Shd f]) \<and>
           map_of (programs P') = (map_of (programs P))(key \<mapsto> program) \<and>
           getProgram dev key P' = (Inr program, P')
       | (Inl message, P') \<Rightarrow>
           programs P' = programs P \<and>
           (message = ''Failed to create shader'' \<or> message = ''Failed to create program'' \<or>
            (\<exists>info. (compile_status dev VERTEX_SHADER basicVertexShader = Bad info \<or>
                     compile_status dev FRAGMENT_SHADER (js_to_string key) = Bad info) \<and>
                    message = ''Shader compilation error: '' @ template_text info) \<or>
            (\<exists>info. link_status dev basicVertexShader (js_to_string key) = Bad info \<and>
                    message = ''Program linking error: '' @ template_text info)) \<and>
           (\<forall>p. Prog p \<in> set (created (gl P')) \<longrightarrow>
                Prog p \<in> set (created (gl P)) \<or> Prog p \<in> set (deleted (gl P')))"
  proof (cases res)
    case (Inl message)
    with cp miss have gp: "getProgram dev key P = (Inl message, P\<lparr>gl := g'\<rparr>)"
      by (simp add: getProgram_def)
    from createProgram_Inl[OF cp[unfolded Inl]] show ?thesis
      unfolding gp by simp
  next
    case (Inr program)
    let ?P' = "P\<lparr>gl := g', programs := AList.update key program (programs P)\<rparr>"
    from Inr cp miss have gp: "getProgram dev key P = (Inr program, ?P')"
      by (simp add: getProgram_def)
    have again: "getProgram dev key ?P' = (Inr program, ?P')"
      by (rule getProgram_cached) (simp add: update_conv')
    from createProgram_Inr[OF cp[unfolded Inr]] again show ?thesis
      unfolding gp by (simp add: update_conv')
  qed
qed

theorem program_cache_witness:
  "map_of (programs idle_processor) (Str shaders_blur) = None \<and>
   fst (getProgram broken_compiler (Str shaders_blur) idle_processor)
     = Inl ''Shader compilation error: ERROR: 0:1: syntax error'' \<and>
   programs (snd (getProgram broken_compiler (Str shaders_blur) idle_processor)) = [] \<and>
   fst (getProgram demo_device (Str shaders_blur) idle_processor) = Inr 2 \<and>
   map_of (programs (snd (getProgram demo_device (Str shaders_blur) idle_processor)))
     (Str shaders_blur) = Some 2 \<and>
   getProgram demo_device (Str shaders_blur)
       (snd (getProgram demo_device (Str shaders_blur) idle_processor))
     = (Inr 2, snd (getProgram demo_device (Str shaders_blur) idle_processor))"
proof -
  have m: "map_of (programs idle_processor) (Str shaders_blur) = None"
    by (simp add: idle_processor_def)
  have b: "getProgram broken_compiler (Str shaders_blur) idle_processor
      = (Inl ''Shader compilation error: ERROR: 0:1: syntax error'',
         idle_processor\<lparr>gl := (gl idle_processor)\<lparr>created := [Shd 0, Shd 1], deleted := [Shd 1],
                                    fresh := 2\<rparr>\<rparr>)"
    by (simp add: getProgram_def createProgram_def compileShader_def gl_create_def gl_delete_def
        template_text_def idle_processor_def new_context_def broken_compiler_def demo_device_def)
  have d: "fst (getProgram demo_device (Str shaders_blur) idle_processor) = Inr 2"
    by (simp add: getProgram_def createProgram_def compileShader_def gl_create_def gl_delete_def
        idle_processor_def new_context_def demo_device_def)
  from program_cache[of idle_processor "Str shaders_blur" broken_compiler, THEN conjunct2, rule_format, OF m]
  have "programs (snd (getProgram broken_compiler (Str shaders_blur) idle_processor)) = []"
    unfolding b by (simp add: idle_processor_def)
  moreover
  from program_cache[of idle_processor "Str shaders_blur" demo_device, THEN conjunct2, rule_format, OF m] d
  have "map_of (programs (snd (getProgram demo_device (Str shaders_blur) idle_processor)))
     (Str shaders_blur) = Some 2 \<and>
   getProgram demo_device (Str shaders_blur)
       (snd (getProgram demo_device (Str shaders_blur) idle_processor))
     = (Inr 2, snd (getProgram demo_device (Str shaders_blur) idle_processor))"
    by (cases "getProgram demo_device (Str shaders_blur) idle_processor")
       (auto simp: idle_processor_def)
  ultimately show ?thesis using m b d by simp
qed

text \<open>
  C7. Whatever the device, the image source and the pipeline, the result of a run has an
  encoded image exactly when \<open>success\<close> is true and an error message exactly when
  \<open>success\<close> is false.
\<close>

theorem result_all_or_nothing:
  "(\<exists>url. imageDataUrl (fst (processImageWithPipeline dev imageSrc pipeline width height)) = Some url)
     = success (fst (processImageWithPipeline dev imageSrc pipeline width height)) \<and>
   (\<exists>m. error (fst (processImageWithPipeline dev imageSrc pipeline width height)) = Some m)
     = (\<not> success (fst (processImageWithPipeline dev imageSrc pipeline width height)))"
  using run_result_shape[of dev imageSrc pipeline width height] by auto

theorem result_all_or_nothing_witness:
  "(\<exists>url. imageDataUrl (fst (processImageWithPipeline no_image ''a.png'' demo_pipeline 4 4)) = Some url)
     = success (fst (processImageWithPipeline no_image ''a.png'' demo_pipeline 4 4)) \<and>
   (\<exists>m. error (fst (processImageWithPipeline no_image ''a.png'' demo_pipeline 4 4)) = Some m)
     = (\<not> success (fst (processImageWithPipeline no_image ''a.png'' demo_pipeline 4 4))) \<and>
   \<not> success (fst (processImageWithPipeline no_image ''a.png'' demo_pipeline 4 4))"
  using result_all_or_nothing[of no_image "''a.png''" demo_pipeline 4 4]
  by (simp add: processImageWithPipeline_def no_image_def demo_device_def)

text \<open>
  C8. In a successful run over a \<open>width \<times> height\<close> surface with \<open>N\<close> enabled filters the
  reported memory figure is \<open>width * height * 4 * (N + 2) / (1024 * 1024)\<close>, which is the
  constant \<open>4 / 1048576\<close> times \<open>width * height\<close> times \<open>N + 2\<close>.
\<close>

theorem memory_estimate:
  assumes "success (fst (processImageWithPipeline dev imageSrc pipeline width height))"
  shows "memoryUsage (fst (processImageWithPipeline dev imageSrc pipeline width height)) =
           real_of_int (width * height * 4 * (int (length (filter enabled pipeline)) + 2))
             / (1024 * 1024) \<and>
         memoryUsage (fst (processImageWithPipeline dev imageSrc pipeline width height)) =
           (4 / 1048576) * real_of_int (width * height)
             * real (length (filter enabled pipeline) + 2)"
  using run_result_shape[of dev imageSrc pipeline width height] assms
  by (auto simp: getMemoryUsage_def)

theorem memory_estimate_witness:
  "success (fst (processImageWithPipeline demo_device ''a.png'' demo_pipeline 100 100)) \<and>
   memoryUsage (fst (processImageWithPipeline demo_device ''a.png'' demo_pipeline 100 100)) =
     160000 / 1048576"
  using memory_estimate[OF demo_device_succeeds, of "''a.png''" demo_pipeline 100 100]
    demo_device_succeeds[of "''a.png''" demo_pipeline 100 100]
  by (simp add: demo_pipeline_enabled)




text \<open>
  C10. A run that resolves with \<open>success = false\<close>, be it from an exception in the
  \<^verbatim>\<open>try\<close> block or from \<^verbatim>\<open>img.onerror\<close>, reports \<open>gpuTime\<close>, \<open>totalTime\<close> and
  \<open>memoryUsage\<close> all equal to 0.
\<close>

theorem failure_telemetry_zero:
  assumes "\<not> success (fst (processImageWithPipeline dev imageSrc pipeline width height))"
  shows "gpuTime (fst (processImageWithPipeline dev imageSrc pipeline width height)) = 0 \<and>
         totalTime (fst (processImageWithPipeline dev imageSrc pipeline width height)) = 0 \<and>
         memoryUsage (fst (processImageWithPipeline dev imageSrc pipeline width height)) = 0"
  using run_result_shape[of dev imageSrc pipeline width height] assms by auto

theorem failure_telemetry_zero_witness:
  "\<not> success (fst (processImageWithPipeline no_image ''a.png'' demo_pipeline 4 4)) \<and>
   gpuTime (fst (processImageWithPipeline no_image ''a.png'' demo_pipeline 4 4)) = 0 \<and>
   totalTime (fst (processImageWithPipeline no_image ''a.png'' demo_pipeline 4 4)) = 0 \<and>
   memoryUsage (fst (processImageWithPipeline no_image ''a.png'' demo_pipeline 4 4)) = 0"
proof -
  have f: "\<not> success (fst (processImageWithPipeline no_image ''a.png'' demo_pipeline 4 4))"
    by (simp add: processImageWithPipeline_def no_image_def demo_device_def)
  from failure_telemetry_zero[OF f] f show ?thesis by simp
qed


end
